theory Spec2Isabelle
  imports Complex_Main
begin

section \<open>Host primitives\<close>

text \<open>
  The scripts run inside a browser. Two host primitives decide what the detection code
  does and are not part of the repository: the regular-expression constructor
  (\<^verbatim>\<open>new RegExp(pattern, flags)\<close>, which throws a SyntaxError on an invalid pattern)
  and the URL parser (\<^verbatim>\<open>new URL(u).origin\<close>, which throws a TypeError on an
  unparseable string). Both are parameters of the model: \<open>RegExp h p i\<close> is \<open>None\<close>
  when the constructor throws and otherwise the compiled pattern's \<^verbatim>\<open>test\<close> method
  (\<open>i\<close> is the ignore-case flag); \<open>URL_origin h u\<close> is \<open>None\<close> when the parser throws.
\<close>

record host =
  RegExp :: "string \<Rightarrow> bool \<Rightarrow> (string \<Rightarrow> bool) option"
  URL_origin :: "string \<Rightarrow> string option"

datatype js_error =
    SyntaxError string
  | TypeError string
  | HttpError nat
  | FormatError string
  | NetworkFailure string
  | AbortError

text \<open>
  \<^verbatim>\<open>String.prototype.toLowerCase\<close> on the ASCII letters, which is all an origin contains.
\<close>

definition toLowerCase_char :: "char \<Rightarrow> char" where
  "toLowerCase_char c =
     (case map_of (zip ''ABCDEFGHIJKLMNOPQRSTUVWXYZ'' ''abcdefghijklmnopqrstuvwxyz'') c of
        None \<Rightarrow> c | Some d \<Rightarrow> d)"

definition toLowerCase :: "string \<Rightarrow> string" where
  "toLowerCase s = map toLowerCase_char s"

section \<open>JavaScript numbers\<close>

text \<open>
  Weights and thresholds are JSON numbers, and the scan adds, compares and divides them
  as IEEE 754 binary64 values. A number is a finite double, given by its exact rational
  value (with \<open>Num 0\<close> for the positive zero), the negative zero, an infinity or NaN.
  Every operation computes the exact rational result and rounds it to the nearest double,
  ties to the even mantissa.
\<close>

datatype jsnum = Num rat | NegZero | PosInf | NegInf | NaN

text \<open>The number of binary digits of a positive integer.\<close>

function bit_length :: "int \<Rightarrow> nat" where
  "bit_length n = (if n \<le> 0 then 0 else Suc (bit_length (n div 2)))"
  by pat_completeness auto
termination
  by (relation "measure nat") auto

definition pow2 :: "int \<Rightarrow> rat" where
  "pow2 e = (if 0 \<le> e then 2 ^ nat e else 1 / 2 ^ nat (- e))"

text \<open>
  For a positive rational \<open>a\<close>, the exponent \<open>k\<close> with \<open>2^k \<le> a < 2^(k+1)\<close>: one less
  than the bit length of \<open>\<lfloor>a\<rfloor>\<close> when \<open>a \<ge> 1\<close>, and otherwise the negated least \<open>j\<close>
  with \<open>2^j \<ge> 1 / a\<close>.
\<close>

definition floor_log2 :: "rat \<Rightarrow> int" where
  "floor_log2 a =
     (if 1 \<le> a then int (bit_length \<lfloor>a\<rfloor>) - 1
      else - int (bit_length (\<lceil>1 / a\<rceil> - 1)))"

definition round_half_even :: "rat \<Rightarrow> int" where
  "round_half_even x =
     (let f = \<lfloor>x\<rfloor>; r = x - of_int f
      in if r < 1 / 2 then f
         else if 1 / 2 < r then f + 1
         else if even f then f else f + 1)"

text \<open>
  Rounding to binary64: the unit in the last place is \<open>2^e\<close>, where \<open>e\<close> leaves 53
  significant bits and is at least \<open>-1074\<close> (the subnormal range); the number of units
  is rounded half to even; a result of \<open>2^1024\<close> or more is an infinity, and a
  non-zero value that rounds to zero keeps its sign.
\<close>

definition round_to_double :: "rat \<Rightarrow> jsnum" where
  "round_to_double q =
     (if q = 0 then Num 0
      else
        let a = \<bar>q\<bar>;
            e = max (floor_log2 a - 52) (- 1074);
            v = of_int (round_half_even (a / pow2 e)) * pow2 e
        in if pow2 1024 \<le> v then (if 0 < q then PosInf else NegInf)
           else if v = 0 then (if 0 < q then Num 0 else NegZero)
           else Num (if 0 < q then v else - v))"

definition sign_negative :: "jsnum \<Rightarrow> bool" where
  "sign_negative x =
     (case x of Num q \<Rightarrow> q < 0 | NegZero \<Rightarrow> True | NegInf \<Rightarrow> True | _ \<Rightarrow> False)"

definition is_zero :: "jsnum \<Rightarrow> bool" where
  "is_zero x = (x = Num 0 \<or> x = NegZero)"

definition is_infinite :: "jsnum \<Rightarrow> bool" where
  "is_infinite x = (x = PosInf \<or> x = NegInf)"

definition finite_value :: "jsnum \<Rightarrow> rat" where
  "finite_value x = (case x of Num q \<Rightarrow> q | _ \<Rightarrow> 0)"

text \<open>
  Addition. An exact sum of zero is the positive zero unless both operands are the
  negative zero.
\<close>

fun js_add :: "jsnum \<Rightarrow> jsnum \<Rightarrow> jsnum" where
  "js_add NaN _ = NaN"
| "js_add _ NaN = NaN"
| "js_add PosInf NegInf = NaN"
| "js_add NegInf PosInf = NaN"
| "js_add PosInf _ = PosInf"
| "js_add _ PosInf = PosInf"
| "js_add NegInf _ = NegInf"
| "js_add _ NegInf = NegInf"
| "js_add NegZero y = y"
| "js_add x NegZero = x"
| "js_add (Num a) (Num b) = round_to_double (a + b)"

text \<open>
  Division. The sign of the result is the exclusive or of the operands' signs, also for
  zeros and infinities; \<open>0 / 0\<close> and \<open>\<infinity> / \<infinity>\<close> are NaN.
\<close>

definition js_div :: "jsnum \<Rightarrow> jsnum \<Rightarrow> jsnum" where
  "js_div x y =
     (let negative = (sign_negative x \<noteq> sign_negative y) in
      if x = NaN \<or> y = NaN then NaN
      else if is_infinite x
        then (if is_infinite y then NaN else if negative then NegInf else PosInf)
      else if is_infinite y then (if negative then NegZero else Num 0)
      else if is_zero y
        then (if is_zero x then NaN else if negative then NegInf else PosInf)
      else if is_zero x then (if negative then NegZero else Num 0)
      else round_to_double (finite_value x / finite_value y))"

text \<open>
  The comparisons \<^verbatim>\<open>>\<close> and \<^verbatim>\<open>>=\<close>: false when an operand is NaN; the two zeros
  are equal.
\<close>

fun js_gt :: "jsnum \<Rightarrow> jsnum \<Rightarrow> bool" where
  "js_gt NaN _ = False"
| "js_gt _ NaN = False"
| "js_gt NegInf _ = False"
| "js_gt _ PosInf = False"
| "js_gt PosInf _ = True"
| "js_gt _ NegInf = True"
| "js_gt x y = (finite_value y < finite_value x)"

definition js_ge :: "jsnum \<Rightarrow> jsnum \<Rightarrow> bool" where
  "js_ge x y = (x \<noteq> NaN \<and> y \<noteq> NaN \<and> \<not> js_gt y x)"

text \<open>\<^verbatim>\<open>Math.min\<close> of two numbers: NaN if either is NaN; the negative zero is below the positive one.\<close>

definition Math_min :: "jsnum \<Rightarrow> jsnum \<Rightarrow> jsnum" where
  "Math_min x y =
     (if x = NaN \<or> y = NaN then NaN
      else if js_gt x y then y
      else if js_gt y x then x
      else if is_zero x \<and> is_zero y \<and> (x = NegZero \<or> y = NegZero) then NegZero
      else x)"

text \<open>The literal \<^verbatim>\<open>0.8\<close>, that is, the double nearest to 4/5.\<close>

definition point_eight :: jsnum where
  "point_eight = Num (3602879701896397 / 4503599627370496)"

section \<open>Detection rules and results (content script)\<close>

record detection_element =
  el_id :: string
  el_pattern :: string
  el_weight :: jsnum

record detection_thresholds =
  minimum_primary_elements :: jsnum
  minimum_total_weight :: jsnum
  minimum_elements_overall :: jsnum

record m365_detection_requirements =
  primary_elements :: "detection_element list"
  secondary_elements :: "detection_element list"
  detection_thresholds :: detection_thresholds

record detection_result =
  isPhishing :: bool
  confidence :: jsnum
  detectedElements :: "string list"
  totalWeight :: jsnum
  primaryElementsCount :: nat
  secondaryElementsCount :: nat
  reasons :: "string list"
  appliedRules :: "string list"
  timestamp :: string
  url :: string
  severity :: "string option"

subsection \<open>Origin matching\<close>

text \<open>
  \<^verbatim>\<open>matchesAnyPattern\<close>: each pattern is compiled without flags inside a try/catch; a
  pattern that does not compile is logged and the loop goes on with the next one.
\<close>

fun matchesAnyPattern :: "host \<Rightarrow> string \<Rightarrow> string list \<Rightarrow> bool" where
  "matchesAnyPattern h u [] = False"
| "matchesAnyPattern h u (p # ps) =
     (case RegExp h p False of
        None \<Rightarrow> matchesAnyPattern h u ps
      | Some test \<Rightarrow> if test u then True else matchesAnyPattern h u ps)"

definition isTrustedLoginDomain :: "host \<Rightarrow> string list \<Rightarrow> string \<Rightarrow> bool" where
  "isTrustedLoginDomain h trustedLoginPatterns u =
     (case URL_origin h u of
        None \<Rightarrow> False
      | Some origin \<Rightarrow> matchesAnyPattern h origin trustedLoginPatterns)"

subsection \<open>The scan\<close>

text \<open>
  One \<^verbatim>\<open>for\<close> loop of \<^verbatim>\<open>analyzePageForPhishing\<close>. The accumulator is what the loop
  mutates: \<^verbatim>\<open>result.detectedElements\<close>, \<^verbatim>\<open>result.appliedRules\<close>, \<^verbatim>\<open>totalWeight\<close>
  (a double, to which each weight is added with \<open>js_add\<close>) and the loop's own counter.
  The counters count elements of an array, which has fewer than \<open>2^32\<close> of them, so their
  increments are exact and they are natural numbers here. An element with an empty
  pattern is skipped by the \<^verbatim>\<open>element.pattern &&\<close> guard; otherwise the pattern is
  compiled with the \<^verbatim>\<open>i\<close> flag. The compilation is not inside any try/catch of the
  function, so a SyntaxError leaves the function.
\<close>

type_synonym scan_acc = "string list \<times> string list \<times> jsnum \<times> nat"

fun check_elements ::
  "host \<Rightarrow> string \<Rightarrow> detection_element list \<Rightarrow> scan_acc \<Rightarrow> js_error + scan_acc" where
  "check_elements h pageSource [] acc = Inr acc"
| "check_elements h pageSource (e # es) (det, app, tw, cnt) =
     (if el_pattern e = [] then check_elements h pageSource es (det, app, tw, cnt)
      else case RegExp h (el_pattern e) True of
        None \<Rightarrow> Inl (SyntaxError (el_pattern e))
      | Some test \<Rightarrow>
          if test pageSource
          then check_elements h pageSource es
                 (det @ [el_id e], app @ [el_id e], js_add tw (el_weight e), Suc cnt)
          else check_elements h pageSource es (det, app, tw, cnt))"

definition initial_result :: "string \<Rightarrow> string \<Rightarrow> detection_result" where
  "initial_result currentUrl now =
     \<lparr> isPhishing = False, confidence = Num 0, detectedElements = [], totalWeight = Num 0,
       primaryElementsCount = 0, secondaryElementsCount = 0, reasons = [],
       appliedRules = [], timestamp = now, url = currentUrl, severity = None \<rparr>"

text \<open>
  The threshold test that ends \<^verbatim>\<open>analyzePageForPhishing\<close>, applied to the result as the
  two loops left it. The three \<^verbatim>\<open>>=\<close> and the \<^verbatim>\<open>>\<close> are comparisons of doubles.
\<close>

definition verdict_of_scan ::
  "host \<Rightarrow> string list \<Rightarrow> detection_thresholds \<Rightarrow> string \<Rightarrow> detection_result \<Rightarrow> detection_result" where
  "verdict_of_scan h trustedLoginPatterns thresholds currentUrl result =
     (if js_ge (Num (of_nat (primaryElementsCount result))) (minimum_primary_elements thresholds) \<and>
         js_ge (totalWeight result) (minimum_total_weight thresholds) \<and>
         js_ge (Num (of_nat (length (detectedElements result)))) (minimum_elements_overall thresholds)
      then
        if \<not> isTrustedLoginDomain h trustedLoginPatterns currentUrl
        then
          let c = Math_min (js_div (totalWeight result) (minimum_total_weight thresholds)) (Num 1)
          in result\<lparr> isPhishing := True, confidence := c,
                 reasons := reasons result @ [''Microsoft 365 login page detected on untrusted domain''],
                 severity := Some (if js_gt c point_eight then ''high'' else ''medium'') \<rparr>
        else result\<lparr> reasons := reasons result @ [''Microsoft 365 login page on trusted domain''] \<rparr>
      else result\<lparr> reasons := reasons result @ [''Insufficient indicators for Microsoft 365 login page''] \<rparr>)"

text \<open>
  \<^verbatim>\<open>analyzePageForPhishing\<close>. The globals it reads are arguments: the loaded rules
  (\<open>None\<close> when \<^verbatim>\<open>detectionRules?.m365_detection_requirements\<close> is missing), the trusted
  login patterns, the page's URL and markup, and the clock reading used as timestamp.
\<close>

definition analyzePageForPhishing ::
  "host \<Rightarrow> m365_detection_requirements option \<Rightarrow> string list \<Rightarrow> string \<Rightarrow> string \<Rightarrow> string
   \<Rightarrow> js_error + detection_result" where
  "analyzePageForPhishing h detectionRules trustedLoginPatterns currentUrl pageSource now =
     (case detectionRules of
        None \<Rightarrow>
          Inr ((initial_result currentUrl now)\<lparr> reasons := [''No detection rules available''] \<rparr>)
      | Some requirements \<Rightarrow>
          (case check_elements h pageSource (primary_elements requirements)
                  ([], [], Num 0, 0) of
             Inl err \<Rightarrow> Inl err
           | Inr (det1, app1, tw1, primaryCount) \<Rightarrow>
               (case check_elements h pageSource (secondary_elements requirements)
                       (det1, app1, tw1, 0) of
                  Inl err \<Rightarrow> Inl err
                | Inr (det2, app2, tw2, secondaryCount) \<Rightarrow>
                    Inr (verdict_of_scan h trustedLoginPatterns
                           (detection_thresholds requirements) currentUrl
                           ((initial_result currentUrl now)
                              \<lparr> detectedElements := det2, totalWeight := tw2,
                                primaryElementsCount := primaryCount,
                                secondaryElementsCount := secondaryCount,
                                appliedRules := app2 \<rparr>)))))"

subsection \<open>Reference notions for the scan\<close>

text \<open>
  The specification describes the scan in two stages: the extraction of the matched
  elements, and a score over their number and weights. The definitions below follow that
  wording; the theorems relate them to the loops of \<^verbatim>\<open>analyzePageForPhishing\<close>.
  An element matches when its pattern is non-empty, compiles, and tests true on the
  markup. \<open>patterns_valid\<close> says that every non-empty pattern of a list compiles. The total
  weight is the sum of the matched weights in double arithmetic, taken from zero in the
  order of the rule set, primary elements first.
\<close>

definition pattern_matches :: "host \<Rightarrow> string \<Rightarrow> detection_element \<Rightarrow> bool" where
  "pattern_matches h pageSource e =
     (el_pattern e \<noteq> [] \<and>
      (case RegExp h (el_pattern e) True of None \<Rightarrow> False | Some test \<Rightarrow> test pageSource))"

definition matched :: "host \<Rightarrow> string \<Rightarrow> detection_element list \<Rightarrow> detection_element list" where
  "matched h pageSource es = filter (pattern_matches h pageSource) es"

definition patterns_valid :: "host \<Rightarrow> detection_element list \<Rightarrow> bool" where
  "patterns_valid h es =
     list_all (\<lambda>e. el_pattern e = [] \<or> RegExp h (el_pattern e) True \<noteq> None) es"

definition sum_weights :: "jsnum list \<Rightarrow> jsnum" where
  "sum_weights ws = foldl js_add (Num 0) ws"

definition matched_weight :: "host \<Rightarrow> m365_detection_requirements \<Rightarrow> string \<Rightarrow> jsnum" where
  "matched_weight h req pageSource =
     sum_weights (map el_weight (matched h pageSource (primary_elements req) @
                                 matched h pageSource (secondary_elements req)))"

definition candidate_login_page :: "host \<Rightarrow> m365_detection_requirements \<Rightarrow> string \<Rightarrow> bool" where
  "candidate_login_page h req pageSource =
     (let primaryCount = length (matched h pageSource (primary_elements req));
          secondaryCount = length (matched h pageSource (secondary_elements req));
          t = detection_thresholds req
      in js_ge (Num (of_nat primaryCount)) (minimum_primary_elements t) \<and>
         js_ge (matched_weight h req pageSource) (minimum_total_weight t) \<and>
         js_ge (Num (of_nat (primaryCount + secondaryCount))) (minimum_elements_overall t))"

text \<open>The page origin matches at least one trusted login pattern that compiles.\<close>

definition origin_trusted :: "host \<Rightarrow> string list \<Rightarrow> string \<Rightarrow> bool" where
  "origin_trusted h pats u =
     (case URL_origin h u of
        None \<Rightarrow> False
      | Some origin \<Rightarrow>
          list_ex (\<lambda>p. case RegExp h p False of None \<Rightarrow> False | Some test \<Rightarrow> test origin) pats)"

text \<open>The result record as the two loops leave it, before the thresholds are applied.\<close>

definition scanned ::
  "host \<Rightarrow> m365_detection_requirements \<Rightarrow> string \<Rightarrow> string \<Rightarrow> string \<Rightarrow> detection_result" where
  "scanned h req currentUrl pageSource now =
     (initial_result currentUrl now)
       \<lparr> detectedElements := map el_id (matched h pageSource (primary_elements req) @
                                        matched h pageSource (secondary_elements req)),
         totalWeight := matched_weight h req pageSource,
         primaryElementsCount := length (matched h pageSource (primary_elements req)),
         secondaryElementsCount := length (matched h pageSource (secondary_elements req)),
         appliedRules := map el_id (matched h pageSource (primary_elements req) @
                                    matched h pageSource (secondary_elements req)) \<rparr>"

section \<open>Background service worker\<close>

subsection \<open>Policy and URL verdicts\<close>

text \<open>
  \<^verbatim>\<open>policy\<close> is untyped in the source. It holds the default policy or what the policy
  manager returns, which is data merged from the extension's storage, that is, JSON
  values. The fields below are those of \<^verbatim>\<open>getDefaultPolicy\<close> plus \<^verbatim>\<open>trustedOrigins\<close>,
  which \<^verbatim>\<open>verdictForUrl\<close> reads as \<^verbatim>\<open>policy?.trustedOrigins || new Set([...])\<close> and
  then guards by \<^verbatim>\<open>trustedOrigins.has &&\<close> before it calls \<^verbatim>\<open>trustedOrigins.has(origin)\<close>.
  Three kinds of stored value are told apart by that code: a missing or otherwise falsy
  value, for which the built-in Set is used; a truthy value whose \<^verbatim>\<open>has\<close> is missing
  or falsy (an array, a string, a number, an object without that key), on which the guard
  skips the call; and a truthy value whose \<^verbatim>\<open>has\<close> is truthy, such as
  \<^verbatim>\<open>{"has": true}\<close>. No JSON value is a function, so in the last case the call throws
  a TypeError.
\<close>

datatype origins_value = Origins_missing | Origins_without_has | Origins_has_not_callable

text \<open>
  \<^verbatim>\<open>ExtraWhitelist\<close> is used as \<^verbatim>\<open>(policy?.ExtraWhitelist || []).map(...)\<close>: a missing
  value stands for the empty list, an array is mapped, and on any other truthy value the
  call of \<^verbatim>\<open>map\<close> throws.
\<close>

datatype whitelist_value = Whitelist_missing | Whitelist_array "string list" | Whitelist_not_array

record policy =
  BrandingName :: string
  BrandingImage :: string
  ExtraWhitelist :: whitelist_value
  CIPPReportingServer :: string
  AlertWhenLogon :: bool
  ValidPageBadgeImage :: string
  StrictResourceAudit :: bool
  RequireMicrosoftAction :: bool
  EnableValidPageBadge :: bool
  trustedOrigins :: origins_value

definition getDefaultPolicy :: policy where
  "getDefaultPolicy =
     \<lparr> BrandingName = ''CyberDrain Check Phishing Protection'', BrandingImage = [],
       ExtraWhitelist = Whitelist_array [], CIPPReportingServer = [], AlertWhenLogon = True,
       ValidPageBadgeImage = [], StrictResourceAudit = True, RequireMicrosoftAction = True,
       EnableValidPageBadge = False, trustedOrigins = Origins_missing \<rparr>"

definition urlOrigin :: "host \<Rightarrow> string \<Rightarrow> string" where
  "urlOrigin h u = (case URL_origin h u of None \<Rightarrow> [] | Some origin \<Rightarrow> toLowerCase origin)"

definition default_trusted_origins :: "string list" where
  "default_trusted_origins =
     [''https://login.microsoftonline.com'', ''https://login.microsoft.com'',
      ''https://account.microsoft.com'']"

text \<open>
  \<^verbatim>\<open>verdictForUrl\<close>. The result is the string returned, or the TypeError that leaves the
  function when \<^verbatim>\<open>trustedOrigins.has\<close> is called and is not a function.
\<close>

definition verdictForUrl ::
  "host \<Rightarrow> policy option \<Rightarrow> string list \<Rightarrow> string \<Rightarrow> js_error + string" where
  "verdictForUrl h pol extraWhitelist raw =
     (let origin = urlOrigin h raw;
          configured = (case pol of None \<Rightarrow> Origins_missing | Some p \<Rightarrow> trustedOrigins p);
          by_whitelist = (if origin \<in> set extraWhitelist then ''trusted-extra''
                          else ''not-evaluated'')
      in case configured of
           Origins_missing \<Rightarrow>
             if origin \<in> set default_trusted_origins then Inr ''trusted'' else Inr by_whitelist
         | Origins_without_has \<Rightarrow> Inr by_whitelist
         | Origins_has_not_callable \<Rightarrow>
             Inl (TypeError ''trustedOrigins.has is not a function''))"

subsection \<open>State of the worker\<close>

text \<open>
  The fields of \<^verbatim>\<open>CheckBackground\<close> that the modelled handlers touch, together with the
  browser state they act on: the alarms created so far (name and due time), the pending
  timers, the session storage (the entry under \<^verbatim>\<open>'verdict:' + tabId\<close> is kept under the
  tab id) and the badge shown per tab. \<^verbatim>\<open>initializationPromise\<close> records whether the
  field is non-null.
\<close>

record verdict_entry =
  verdict :: string
  entry_url :: "string option"

record header_entry =
  headers :: "(string \<times> string) list"
  ts :: nat

record background =
  isInitialized :: bool
  initializationPromise :: bool
  initializationRetries :: nat
  retryScheduled :: bool
  listenersReady :: bool
  policy :: "policy option"
  extraWhitelist :: "string list"
  lastError :: "js_error option"
  errorCount :: nat
  tabHeaders :: "nat \<rightharpoonup> header_entry"
  tabQueues :: "nat \<rightharpoonup> nat"
  tabDebounce :: "nat \<rightharpoonup> nat"
  timers :: "nat set"
  alarms :: "(string \<times> nat) list"
  session :: "nat \<rightharpoonup> verdict_entry"
  badge :: "nat \<rightharpoonup> string"

definition maxInitializationRetries :: nat where
  "maxInitializationRetries = 3"

definition maxErrors :: nat where
  "maxErrors = 10"

definition new_background :: background where
  "new_background =
     \<lparr> isInitialized = False, initializationPromise = False, initializationRetries = 0,
       retryScheduled = False, listenersReady = False, policy = None, extraWhitelist = [],
       lastError = None, errorCount = 0, tabHeaders = Map.empty, tabQueues = Map.empty,
       tabDebounce = Map.empty, timers = {}, alarms = [], session = Map.empty,
       badge = Map.empty \<rparr>"

subsection \<open>Initialization, retry and fallback\<close>

text \<open>
  \<^verbatim>\<open>refreshPolicy\<close> with the value returned by \<^verbatim>\<open>policyManager.getPolicies()\<close>
  (\<open>None\<close> for \<^verbatim>\<open>null\<close>): the whitelist keeps the non-empty origins of the policy's
  \<^verbatim>\<open>ExtraWhitelist\<close>. When building the whitelist throws, the \<^verbatim>\<open>catch\<close> branch
  installs the default policy and an empty whitelist.
\<close>

definition refreshPolicy :: "host \<Rightarrow> policy option \<Rightarrow> background \<Rightarrow> background" where
  "refreshPolicy h policyData s =
     (let p = (case policyData of None \<Rightarrow> getDefaultPolicy | Some d \<Rightarrow> d)
      in case ExtraWhitelist p of
           Whitelist_not_array \<Rightarrow> s\<lparr> policy := Some getDefaultPolicy, extraWhitelist := [] \<rparr>
         | Whitelist_missing \<Rightarrow> s\<lparr> policy := Some p, extraWhitelist := [] \<rparr>
         | Whitelist_array entries \<Rightarrow>
             s\<lparr> policy := Some p,
                extraWhitelist := filter (\<lambda>origin. origin \<noteq> []) (map (urlOrigin h) entries) \<rparr>)"

definition enterFallbackMode :: "background \<Rightarrow> background" where
  "enterFallbackMode s = s\<lparr> isInitialized := False, policy := Some getDefaultPolicy \<rparr>"

text \<open>
  One run of the \<^verbatim>\<open>try\<close> block of \<^verbatim>\<open>_doInitialize\<close>: every awaited step returns, or a
  step throws before \<^verbatim>\<open>refreshPolicy\<close> is reached (\<^verbatim>\<open>configManager.loadConfig\<close> rethrows
  its errors), or \<^verbatim>\<open>setupEventListeners\<close> throws while it registers a listener. The steps
  between \<^verbatim>\<open>refreshPolicy\<close> and \<^verbatim>\<open>setupEventListeners\<close> catch their own errors.
\<close>

datatype init_outcome =
    Completes "policy option"
  | Throws_before_policy js_error
  | Throws_in_listener_setup "policy option" js_error

text \<open>The \<^verbatim>\<open>catch\<close> block of \<^verbatim>\<open>_doInitialize\<close>; \<open>now\<close> is \<^verbatim>\<open>Date.now()\<close>.\<close>

definition init_failed :: "js_error \<Rightarrow> nat \<Rightarrow> background \<Rightarrow> background" where
  "init_failed err now s =
     (let s1 = s\<lparr> lastError := Some err,
                   initializationRetries := initializationRetries s + 1,
                   initializationPromise := False \<rparr>
      in if initializationRetries s1 < maxInitializationRetries
         then s1\<lparr> retryScheduled := True,
                  alarms := alarms s1 @ [(''check:init-retry'', now + 1000 * initializationRetries s1)] \<rparr>
         else enterFallbackMode s1)"

text \<open>The end of the \<^verbatim>\<open>try\<close> block, from \<^verbatim>\<open>setupEventListeners\<close> on, when nothing throws.\<close>

definition init_completed :: "background \<Rightarrow> background" where
  "init_completed s =
     s\<lparr> listenersReady := True, isInitialized := True, initializationRetries := 0,
        errorCount := 0 \<rparr>"

text \<open>
  \<^verbatim>\<open>_doInitialize\<close>: the error it rejects with, if any, and the state afterwards.
  \<^verbatim>\<open>setupEventListeners\<close> returns at once when \<^verbatim>\<open>_listenersReady\<close> is set, and sets it
  before it registers anything; so it can throw only when the flag was not set, and it
  leaves the flag set when it throws.
\<close>

fun doInitialize :: "host \<Rightarrow> init_outcome \<Rightarrow> nat \<Rightarrow> background \<Rightarrow> js_error option \<times> background" where
  "doInitialize h (Completes policyData) now s =
     (None, init_completed (refreshPolicy h policyData s))"
| "doInitialize h (Throws_before_policy err) now s = (Some err, init_failed err now s)"
| "doInitialize h (Throws_in_listener_setup policyData err) now s =
     (if listenersReady s then (None, init_completed (refreshPolicy h policyData s))
      else (Some err, init_failed err now ((refreshPolicy h policyData s)\<lparr> listenersReady := True \<rparr>)))"

text \<open>
  \<^verbatim>\<open>initialize\<close>. An attempt is taken to run to its end before the next event is
  handled, so the in-flight promise is never observed by another event: the field is set
  when the attempt starts, reset in the \<^verbatim>\<open>catch\<close> block, and left set after a success.
\<close>

definition initialize :: "host \<Rightarrow> init_outcome \<Rightarrow> nat \<Rightarrow> background \<Rightarrow> js_error option \<times> background" where
  "initialize h outcome now s =
     (if isInitialized s then (None, s)
      else if initializationPromise s \<or> retryScheduled s then (None, s)
      else doInitialize h outcome now (s\<lparr> initializationPromise := True \<rparr>))"

text \<open>The \<^verbatim>\<open>ping\<close> branch of \<^verbatim>\<open>handleMessage\<close>.\<close>

record ping_response =
  success :: bool
  initialized :: bool
  fallbackMode :: bool
  ping_errorCount :: nat
  ping_lastError :: "js_error option"

definition ping :: "background \<Rightarrow> ping_response" where
  "ping s =
     \<lparr> success = True, initialized = isInitialized s, fallbackMode = (\<not> isInitialized s),
       ping_errorCount = errorCount s, ping_lastError = lastError s \<rparr>"

text \<open>
  The outer \<^verbatim>\<open>catch\<close> block of \<^verbatim>\<open>handleMessage\<close>, entered when the handling of a
  message throws: the error is counted, and past \<^verbatim>\<open>maxErrors\<close> the counter is reset,
  the worker is marked uninitialized, the promise field is cleared and \<^verbatim>\<open>initialize\<close>
  is called, its rejection being logged only.
\<close>

definition message_failed :: "host \<Rightarrow> init_outcome \<Rightarrow> nat \<Rightarrow> background \<Rightarrow> background" where
  "message_failed h reinit now s =
     (let s1 = s\<lparr> errorCount := errorCount s + 1 \<rparr>
      in if maxErrors < errorCount s1
         then snd (initialize h reinit now
                     (s1\<lparr> errorCount := 0, isInitialized := False, initializationPromise := False \<rparr>))
         else s1)"

text \<open>
  How the handling of a message ends: it returns, or something in it throws and the outer
  \<^verbatim>\<open>catch\<close> block runs (with the outcome the re-initialization would have and the clock
  reading).
\<close>

datatype handler_result = Handled | Handler_throws init_outcome nat

fun message_end :: "host \<Rightarrow> handler_result \<Rightarrow> background \<Rightarrow> background" where
  "message_end h Handled s = s"
| "message_end h (Handler_throws reinit now) s = message_failed h reinit now s"

text \<open>
  The state a fresh service-worker global starts from. The browser stops an idle worker
  and starts a new one for the next event; the script is evaluated again and constructs a
  new \<^verbatim>\<open>CheckBackground\<close>, whose fields have their initial values. The timers of the old
  global are gone with it. The alarms, the session storage and the badges belong to the
  browser and are kept.
\<close>

definition fresh_worker :: "background \<Rightarrow> background" where
  "fresh_worker s =
     new_background\<lparr> alarms := alarms s, session := session s, badge := badge s \<rparr>"

text \<open>
  The events that reach the initialization code. Each carries the outcome its
  initialization attempt would have and the clock reading.

  \<^item> A new worker is started: the fields restart and the top-level code calls
    \<^verbatim>\<open>initialize\<close>.
  \<^item> The script is evaluated again in a global that still holds the instance: the
    top-level code calls \<^verbatim>\<open>initialize\<close> on it.
  \<^item> The \<^verbatim>\<open>check:init-retry\<close> alarm fires: the listener clears \<^verbatim>\<open>_retryScheduled\<close> and
    calls \<^verbatim>\<open>initialize\<close>.
  \<^item> A \<^verbatim>\<open>ping\<close> message: it is answered from the current state, without any
    initialization.
  \<^item> Any other message: \<^verbatim>\<open>initialize\<close> is called first when the worker is not
    initialized, and its error is swallowed; then the message is handled.
\<close>

datatype lifecycle_event =
    Worker_started init_outcome nat
  | Script_loaded init_outcome nat
  | Alarm_init_retry init_outcome nat
  | Ping_message handler_result
  | Other_message init_outcome nat handler_result

fun lifecycle_step :: "host \<Rightarrow> lifecycle_event \<Rightarrow> background \<Rightarrow> background" where
  "lifecycle_step h (Worker_started outcome now) s =
     snd (initialize h outcome now (fresh_worker s))"
| "lifecycle_step h (Script_loaded outcome now) s = snd (initialize h outcome now s)"
| "lifecycle_step h (Alarm_init_retry outcome now) s =
     snd (initialize h outcome now (s\<lparr> retryScheduled := False \<rparr>))"
| "lifecycle_step h (Ping_message ending) s = message_end h ending s"
| "lifecycle_step h (Other_message outcome now ending) s =
     message_end h ending
       (if \<not> isInitialized s then snd (initialize h outcome now s) else s)"

fun lifecycle_run :: "host \<Rightarrow> lifecycle_event list \<Rightarrow> background \<Rightarrow> background" where
  "lifecycle_run h [] s = s"
| "lifecycle_run h (e # es) s = lifecycle_run h es (lifecycle_step h e s)"

text \<open>
  Whether an attempt with the given outcome, started in the given state, throws: a
  failure of the listener setup can only happen while the listeners are not set up.
\<close>

fun attempt_throws :: "init_outcome \<Rightarrow> background \<Rightarrow> bool" where
  "attempt_throws (Completes _) s = False"
| "attempt_throws (Throws_before_policy _) s = True"
| "attempt_throws (Throws_in_listener_setup _ _) s = (\<not> listenersReady s)"

text \<open>
  The runs in which the worker is never marked initialized: after each event of the list
  the flag is still unset, that is, no attempt made on the way has succeeded.
\<close>

fun stays_uninitialized :: "host \<Rightarrow> lifecycle_event list \<Rightarrow> background \<Rightarrow> bool" where
  "stays_uninitialized h [] s = True"
| "stays_uninitialized h (e # es) s =
     (\<not> isInitialized (lifecycle_step h e s) \<and>
      stays_uninitialized h es (lifecycle_step h e s))"

fun same_worker :: "lifecycle_event \<Rightarrow> bool" where
  "same_worker (Worker_started _ _) = False"
| "same_worker _ = True"

subsection \<open>Tab events\<close>

definition truthy :: "string option \<Rightarrow> bool" where
  "truthy v = (case v of None \<Rightarrow> False | Some s \<Rightarrow> s \<noteq> [])"

definition js_or :: "string option \<Rightarrow> string option \<Rightarrow> string option" where
  "js_or a b = (if truthy a then a else b)"

text \<open>
  The arguments of one \<^verbatim>\<open>tabs.onUpdated\<close> callback as \<^verbatim>\<open>handleTabUpdate\<close> sees them,
  together with the results of the browser calls it makes: \<open>latest\<close> is the result of
  \<^verbatim>\<open>safe(chrome.tabs.get(tabId))\<close> (\<open>None\<close> when the call rejects, otherwise the tab's
  \<^verbatim>\<open>url\<close> field); \<open>session_get_ok\<close>, \<open>session_set_ok\<close> and \<open>badge_ok\<close> tell whether
  the read of the session storage, the write to it and the badge update go through. All
  of these are wrapped in \<^verbatim>\<open>safe\<close>, which turns a rejection into \<^verbatim>\<open>undefined\<close>.
\<close>

record tab_update =
  tabId :: nat
  change_status :: "string option"
  change_url :: "string option"
  tab_url :: "string option"
  latest :: "string option option"
  session_get_ok :: bool
  session_set_ok :: bool
  badge_ok :: bool

definition shouldUpdateVerdict :: "string option \<Rightarrow> string \<Rightarrow> bool" where
  "shouldUpdateVerdict existingVerdict urlBasedVerdict =
     (\<not> truthy existingVerdict \<or>
      existingVerdict = Some ''not-evaluated'' \<or>
      (existingVerdict = Some ''trusted'' \<and> urlBasedVerdict \<noteq> ''trusted''))"

definition setBadge :: "bool \<Rightarrow> nat \<Rightarrow> string \<Rightarrow> background \<Rightarrow> background" where
  "setBadge ok tab v s = (if ok then s\<lparr> badge := (badge s)(tab \<mapsto> v) \<rparr> else s)"

text \<open>
  \<^verbatim>\<open>handleTabUpdate\<close> up to the verdict and badge update. The content-script injection
  and the access log that follow do not touch the verdict and are left out. The body is
  inside a \<^verbatim>\<open>try\<close> whose \<^verbatim>\<open>catch\<close> logs the error: when \<^verbatim>\<open>verdictForUrl\<close> throws,
  nothing is read or written. When the read of the session storage fails,
  \<^verbatim>\<open>existingData\<close> is \<^verbatim>\<open>undefined\<close> and so is \<^verbatim>\<open>existingVerdict\<close>.
\<close>

definition handleTabUpdate :: "host \<Rightarrow> tab_update \<Rightarrow> background \<Rightarrow> background" where
  "handleTabUpdate h ev s =
     (if \<not> isInitialized s then s
      else case latest ev of
        None \<Rightarrow> s
      | Some latest_url \<Rightarrow>
          if latest_url \<noteq> js_or (tab_url ev) (change_url ev) then s
          else if change_status ev = Some ''complete'' \<and> truthy (tab_url ev)
          then
            (case tab_url ev of
               None \<Rightarrow> s
             | Some u \<Rightarrow>
                 (case verdictForUrl h (policy s) (extraWhitelist s) u of
                    Inl err \<Rightarrow> s
                  | Inr urlBasedVerdict \<Rightarrow>
                      let existingVerdict =
                            (if session_get_ok ev then map_option verdict (session s (tabId ev))
                             else None)
                      in if shouldUpdateVerdict existingVerdict urlBasedVerdict
                         then setBadge (badge_ok ev) (tabId ev) urlBasedVerdict
                                (if session_set_ok ev
                                 then s\<lparr> session := (session s)(tabId ev \<mapsto>
                                            \<lparr> verdict = urlBasedVerdict, entry_url = Some u \<rparr>) \<rparr>
                                 else s)
                         else (case existingVerdict of
                                 None \<Rightarrow> s
                               | Some kept \<Rightarrow> setBadge (badge_ok ev) (tabId ev) kept s)))
          else s)"

fun handleTabUpdates :: "host \<Rightarrow> tab_update list \<Rightarrow> background \<Rightarrow> background" where
  "handleTabUpdates h [] s = s"
| "handleTabUpdates h (ev # evs) s = handleTabUpdates h evs (handleTabUpdate h ev s)"

text \<open>
  The \<^verbatim>\<open>tabs.onRemoved\<close> listener registered in \<^verbatim>\<open>setupEventListeners\<close>: it deletes the
  header-cache entry and the queue of the tab, clears its debounce timer and deletes the
  timer's entry. It does not touch the session storage.
\<close>

definition onTabRemoved :: "nat \<Rightarrow> background \<Rightarrow> background" where
  "onTabRemoved tab s =
     s\<lparr> tabHeaders := (tabHeaders s)(tab := None),
        tabQueues := (tabQueues s)(tab := None),
        timers := (case tabDebounce s tab of None \<Rightarrow> timers s | Some t \<Rightarrow> timers s - {t}),
        tabDebounce := (tabDebounce s)(tab := None) \<rparr>"

subsection \<open>Rogue-application registry\<close>

record rogue_app =
  appId :: string
  displayName :: string
  description :: "string option"
  app_severity :: "string option"

text \<open>
  What the refresh can meet. The fetch rejects (network error, or the abort that
  \<^verbatim>\<open>fetchWithTimeout\<close> issues after ten seconds), or it yields a response with a status
  and a body. The body is not JSON, or it is a JSON value, which is an array or not. An
  element of the array is \<^verbatim>\<open>null\<close> (reading \<^verbatim>\<open>app.appId\<close> then throws a TypeError),
  a value without a truthy \<^verbatim>\<open>appId\<close>, or an application record.
\<close>

datatype app_item = Item_null | Item_without_appId | Item_app rogue_app

datatype json_payload = Json_array "app_item list" | Json_not_array

datatype response_body = Body_malformed | Body_json json_payload

datatype fetch_result = Fetch_rejects js_error | Fetch_response nat response_body

record rogue_apps_manager =
  rogueApps :: "string \<rightharpoonup> rogue_app"
  lastUpdate :: nat
  cache :: "(app_item list \<times> nat) option"

definition response_ok :: "nat \<Rightarrow> bool" where
  "response_ok status = (200 \<le> status \<and> status \<le> 299)"

text \<open>
  The \<^verbatim>\<open>forEach\<close> that fills the table; it stops at the element that throws and leaves
  the table as filled so far.
\<close>

fun populate :: "app_item list \<Rightarrow> (string \<rightharpoonup> rogue_app) \<Rightarrow> js_error option \<times> (string \<rightharpoonup> rogue_app)" where
  "populate [] table = (None, table)"
| "populate (Item_null # rest) table = (Some (TypeError ''appId''), table)"
| "populate (Item_without_appId # rest) table = populate rest table"
| "populate (Item_app app # rest) table =
     (if appId app \<noteq> [] then populate rest (table(appId app \<mapsto> app)) else populate rest table)"

text \<open>
  \<^verbatim>\<open>updateRogueApps\<close>: the result is the rethrown error, if any, and the manager
  afterwards. \<open>stored\<close> tells whether the write to local storage, wrapped in \<^verbatim>\<open>safe\<close>,
  went through.
\<close>

definition updateRogueApps ::
  "fetch_result \<Rightarrow> nat \<Rightarrow> bool \<Rightarrow> rogue_apps_manager \<Rightarrow> js_error option \<times> rogue_apps_manager" where
  "updateRogueApps fetched now stored m =
     (case fetched of
        Fetch_rejects err \<Rightarrow> (Some err, m)
      | Fetch_response status body \<Rightarrow>
          if \<not> response_ok status then (Some (HttpError status), m)
          else case body of
            Body_malformed \<Rightarrow> (Some (SyntaxError ''JSON''), m)
          | Body_json Json_not_array \<Rightarrow>
              (Some (FormatError ''Invalid response format: expected array''), m)
          | Body_json (Json_array apps) \<Rightarrow>
              (case populate apps Map.empty of
                 (Some err, table) \<Rightarrow> (Some err, m\<lparr> rogueApps := table \<rparr>)
               | (None, table) \<Rightarrow>
                   (None, m\<lparr> rogueApps := table, lastUpdate := now,
                             cache := (if stored then Some (apps, now) else cache m) \<rparr>)))"

record force_update_result =
  fu_success :: bool
  fu_count :: "nat option"
  fu_error :: "js_error option"

definition forceUpdate ::
  "fetch_result \<Rightarrow> nat \<Rightarrow> bool \<Rightarrow> rogue_apps_manager \<Rightarrow> force_update_result \<times> rogue_apps_manager" where
  "forceUpdate fetched now stored m =
     (case updateRogueApps fetched now stored m of
        (None, m') \<Rightarrow> (\<lparr> fu_success = True, fu_count = Some (card (dom (rogueApps m'))), fu_error = None \<rparr>, m')
      | (Some err, m') \<Rightarrow> (\<lparr> fu_success = False, fu_count = None, fu_error = Some err \<rparr>, m'))"

text \<open>
  The refreshes that fail before the payload is accepted: the fetch rejects (network
  error or timeout), the status is not 2xx, the body is not JSON, or the JSON value is not
  an array.
\<close>

fun refresh_rejected :: "fetch_result \<Rightarrow> bool" where
  "refresh_rejected (Fetch_rejects _) = True"
| "refresh_rejected (Fetch_response status Body_malformed) = True"
| "refresh_rejected (Fetch_response status (Body_json Json_not_array)) = True"
| "refresh_rejected (Fetch_response status (Body_json (Json_array _))) = (\<not> response_ok status)"

text \<open>
  The other build of the worker in the repository registers \<^verbatim>\<open>handleTabRemoved\<close> for
  the same event: it removes the session entry, the queue and the debounce entry.
\<close>

definition handleTabRemoved :: "nat \<Rightarrow> background \<Rightarrow> background" where
  "handleTabRemoved tab s =
     s\<lparr> session := (session s)(tab := None),
        tabQueues := (tabQueues s)(tab := None),
        tabDebounce := (tabDebounce s)(tab := None) \<rparr>"

subsection \<open>Invariants used in the proofs\<close>

definition in_fallback :: "background \<Rightarrow> bool" where
  "in_fallback s = (\<not> isInitialized s \<and> maxInitializationRetries \<le> initializationRetries s)"

definition specific_verdict :: "string \<Rightarrow> bool" where
  "specific_verdict v = (v = ''phishy'' \<or> v = ''rogue-app'' \<or> v = ''ms-login-unknown'')"

definition callable_or_absent :: "policy option \<Rightarrow> bool" where
  "callable_or_absent pol =
     (case pol of None \<Rightarrow> True | Some p \<Rightarrow> trustedOrigins p \<noteq> Origins_has_not_callable)"

section \<open>Sample host and data\<close>

text \<open>
  A small host for evaluating the model on concrete inputs. Its regular expressions are
  the fragment the examples need: a non-empty pattern of lower-case letters is a literal
  and tests for a substring (of the lower-cased subject under the \<^verbatim>\<open>i\<close> flag); any
  other pattern, such as the unterminated group \<^verbatim>\<open>(\<close>, is rejected. Its URL parser
  knows the two URLs of the examples and rejects every other string.
\<close>

primrec has_infix :: "string \<Rightarrow> string \<Rightarrow> bool" where
  "has_infix p [] = (p = [])"
| "has_infix p (c # cs) = (take (length p) (c # cs) = p \<or> has_infix p cs)"

definition sample_RegExp :: "string \<Rightarrow> bool \<Rightarrow> (string \<Rightarrow> bool) option" where
  "sample_RegExp p i =
     (if p \<noteq> [] \<and> list_all (\<lambda>c. c \<in> set ''abcdefghijklmnopqrstuvwxyz'') p
      then Some (\<lambda>s. has_infix p (if i then toLowerCase s else s))
      else None)"

definition sample_host :: host where
  "sample_host =
     \<lparr> RegExp = sample_RegExp,
       URL_origin = map_of
         [(''https://evil.example/login'', ''https://evil.example''),
          (''https://login.microsoftonline.com/common'', ''https://login.microsoftonline.com'')] \<rparr>"

text \<open>
  Rule sets over the patterns \<^verbatim>\<open>a\<close>, \<^verbatim>\<open>b\<close> and \<^verbatim>\<open>c\<close>: the primary elements and
  their weights, the secondary elements and their weights, and the three thresholds.
\<close>

definition rules_of ::
  "(string \<times> string \<times> jsnum) list \<Rightarrow> (string \<times> string \<times> jsnum) list \<Rightarrow> jsnum \<Rightarrow> jsnum \<Rightarrow> jsnum
   \<Rightarrow> m365_detection_requirements" where
  "rules_of primary secondary min_primary min_weight min_overall =
     \<lparr> primary_elements =
         map (\<lambda>(i, p, w). \<lparr> el_id = i, el_pattern = p, el_weight = w \<rparr>) primary,
       secondary_elements =
         map (\<lambda>(i, p, w). \<lparr> el_id = i, el_pattern = p, el_weight = w \<rparr>) secondary,
       detection_thresholds =
         \<lparr> minimum_primary_elements = min_primary, minimum_total_weight = min_weight,
           minimum_elements_overall = min_overall \<rparr> \<rparr>"

definition boundary_rules :: m365_detection_requirements where
  "boundary_rules =
     rules_of [(''p1'', ''a'', Num 2), (''p2'', ''b'', Num 3)] [(''s1'', ''c'', Num 0)]
       (Num 2) (Num 5) (Num 3)"

definition tripled_rules :: m365_detection_requirements where
  "tripled_rules =
     rules_of [(''p1'', ''a'', Num 9), (''p2'', ''b'', Num 6)] [] (Num 2) (Num 5) (Num 2)"

definition degenerate_rules :: m365_detection_requirements where
  "degenerate_rules = rules_of [] [] (Num 0) (Num 0) (Num 0)"

text \<open>The JSON literal \<^verbatim>\<open>1e999\<close> is read as an infinity.\<close>

definition infinite_rules :: m365_detection_requirements where
  "infinite_rules = rules_of [(''p1'', ''a'', PosInf)] [] (Num 1) PosInf (Num 1)"

definition broken_rules :: m365_detection_requirements where
  "broken_rules =
     rules_of [(''p1'', ''a'', Num 2), (''bad'', ''('', Num 1), (''p2'', ''b'', Num 3)]
       [(''s1'', ''c'', Num 0)] (Num 2) (Num 5) (Num 3)"

definition duplicate_rules :: m365_detection_requirements where
  "duplicate_rules =
     rules_of [(''p1'', ''a'', Num 2), (''p1'', ''a'', Num 2)] [(''p1'', ''a'', Num 2)]
       (Num 2) (Num 6) (Num 3)"

text \<open>The doubles that the literals \<^verbatim>\<open>0.1\<close> and \<^verbatim>\<open>0.7\<close> denote.\<close>

definition tenth :: jsnum where
  "tenth = Num (3602879701896397 / 36028797018963968)"

definition seven_tenths :: jsnum where
  "seven_tenths = Num (3152519739159347 / 4503599627370496)"

definition fractional_rules :: m365_detection_requirements where
  "fractional_rules =
     rules_of [(''p1'', ''a'', tenth), (''p2'', ''b'', seven_tenths)] []
       (Num 2) point_eight (Num 2)"

text \<open>The JSON literal \<^verbatim>\<open>-0\<close> is read as the negative zero.\<close>

definition negative_zero_rules :: m365_detection_requirements where
  "negative_zero_rules = rules_of [(''p1'', ''a'', Num 2)] [] (Num 1) NegZero (Num 1)"

text \<open>Weights \<open>10^16\<close>, 1 and 1 against the threshold \<open>10^16 + 2\<close>, all of them doubles.\<close>

definition absorbing_rules :: m365_detection_requirements where
  "absorbing_rules =
     rules_of [(''p1'', ''a'', Num 10000000000000000), (''p2'', ''b'', Num 1)]
       [(''s1'', ''c'', Num 1)] (Num 2) (Num 10000000000000002) (Num 3)"

text \<open>Policies as the policy manager can hand them over, and worker states.\<close>

definition partner_policy :: policy where
  "partner_policy = getDefaultPolicy\<lparr> ExtraWhitelist := Whitelist_array [''not a url'', ''https://evil.example/login''] \<rparr>"

text \<open>The stored policy \<^verbatim>\<open>{"trustedOrigins": {"has": true}}\<close>.\<close>

definition uncallable_policy :: policy where
  "uncallable_policy = getDefaultPolicy\<lparr> trustedOrigins := Origins_has_not_callable \<rparr>"

definition sample_background :: background where
  "sample_background =
     new_background
       \<lparr> isInitialized := True,
         tabHeaders := [7 \<mapsto> \<lparr> headers = [(''server'', ''nginx'')], ts = 100 \<rparr>],
         tabQueues := [7 \<mapsto> 0],
         tabDebounce := [7 \<mapsto> 3],
         timers := {3},
         session := [7 \<mapsto> \<lparr> verdict = ''phishy'', entry_url = Some ''https://evil.example/login'' \<rparr>] \<rparr>"

definition sample_update :: "nat \<Rightarrow> tab_update" where
  "sample_update tab =
     \<lparr> tabId = tab, change_status = Some ''complete'', change_url = None,
       tab_url = Some ''https://evil.example/login'',
       latest = Some (Some ''https://evil.example/login''),
       session_get_ok = True, session_set_ok = True, badge_ok = True \<rparr>"

definition sample_app :: rogue_app where
  "sample_app = \<lparr> appId = ''a1'', displayName = ''Mailer'', description = None,
                  app_severity = Some ''high'' \<rparr>"

definition sample_manager :: rogue_apps_manager where
  "sample_manager = \<lparr> rogueApps = [''a1'' \<mapsto> sample_app], lastUpdate = 500, cache = None \<rparr>"

text \<open>An initialization attempt that fails because the network is down.\<close>

definition offline :: init_outcome where
  "offline = Throws_before_policy (NetworkFailure ''offline'')"

text \<open>A message whose handling throws, sent while nothing can be initialized.\<close>

definition failing_message :: lifecycle_event where
  "failing_message = Other_message offline 10000 (Handler_throws offline 10000)"

section \<open>Properties of the number model\<close>

declare bit_length.simps [simp del]

lemma bit_length_le: "n < 2 ^ k \<Longrightarrow> bit_length n \<le> k"
proof (induction k arbitrary: n)
  case 0
  then show ?case by (simp add: bit_length.simps)
next
  case (Suc k)
  show ?case
  proof (cases "n \<le> 0")
    case True
    then show ?thesis by (simp add: bit_length.simps)
  next
    case False
    from Suc.prems have "n div 2 < 2 ^ k" by simp
    from Suc.IH [OF this] False show ?thesis by (subst bit_length.simps) simp
  qed
qed

lemma round_half_even_int: "round_half_even (of_int k) = k"
  by (simp add: round_half_even_def)

text \<open>Integers below \<open>2^53\<close> are doubles: rounding leaves them as they are.\<close>

lemma round_to_double_small_int:
  assumes "0 < n" "n < 2 ^ 53"
  shows "round_to_double (of_int n) = Num (of_int n)"
proof -
  define d where "d = 53 - bit_length n"
  have pos: "0 < bit_length n" using assms(1) by (subst bit_length.simps) simp
  have le: "bit_length n \<le> 53" using assms(2) by (rule bit_length_le)
  have fl: "floor_log2 \<bar>of_int n\<bar> = int (bit_length n) - 1"
    using assms(1) by (simp add: floor_log2_def)
  have e: "max (floor_log2 \<bar>of_int n\<bar> - 52) (- 1074) = - int d"
    unfolding fl using pos le by (simp add: d_def)
  have p: "pow2 (- int d) = 1 / 2 ^ d"
    by (cases "d = 0") (simp_all add: pow2_def)
  have q: "\<bar>of_int n :: rat\<bar> / pow2 (- int d) = of_int (n * 2 ^ d)"
    using assms(1) by (simp add: p)
  have v: "of_int (round_half_even (\<bar>of_int n :: rat\<bar> / pow2 (- int d))) * pow2 (- int d) = of_int n"
    unfolding q round_half_even_int by (simp add: p)
  have small: "\<not> pow2 1024 \<le> (of_int n :: rat)"
  proof -
    have "(of_int n :: rat) < of_int (2 ^ 53)" using assms(2) by (simp only: of_int_less_iff)
    also have "\<dots> \<le> pow2 1024" by (simp add: pow2_def)
    finally show ?thesis by simp
  qed
  have nz: "(of_int n :: rat) \<noteq> 0" "0 < (of_int n :: rat)" using assms(1) by simp_all
  show ?thesis
    unfolding round_to_double_def Let_def e v using small nz by simp
qed

lemma round_to_double_numeral [simp]:
  "numeral k < (2 :: int) ^ 53 \<Longrightarrow> round_to_double (numeral k) = Num (numeral k)"
  using round_to_double_small_int [of "numeral k"] by simp

lemma round_to_double_zero [simp]: "round_to_double 0 = Num 0"
  by (simp add: round_to_double_def)

lemma round_to_double_one [simp]: "round_to_double 1 = Num 1"
  using round_to_double_small_int [of 1] by simp

lemma floor_rat_numeral [simp]:
  "\<lfloor>numeral a / numeral b :: rat\<rfloor> = numeral a div numeral b"
  using floor_divide_of_int_eq [of "numeral a" "numeral b", where ?'a = rat] by simp

lemma ceiling_rat_numeral [simp]:
  "\<lceil>numeral a / numeral b :: rat\<rceil> = - ((- numeral a) div numeral b)"
  using floor_divide_of_int_eq [of "- numeral a" "numeral b", where ?'a = rat]
  by (simp add: ceiling_def)

text \<open>Rounding a positive rational, one step of the definition at a time.\<close>

lemma round_to_double_at:
  assumes "0 < a" "floor_log2 a = L" "max (L - 52) (- 1074) = e"
    "round_half_even (a / pow2 e) = m" "of_int m * pow2 e = v" "v < pow2 1024" "v \<noteq> 0"
  shows "round_to_double a = Num v"
  using assms by (simp add: round_to_double_def Let_def)

text \<open>
  The literals \<^verbatim>\<open>0.1\<close>, \<^verbatim>\<open>0.7\<close> and \<^verbatim>\<open>0.8\<close>, and the sum \<^verbatim>\<open>0.1 + 0.7\<close>, which is
  \<^verbatim>\<open>0.7999999999999999\<close> and below \<^verbatim>\<open>0.8\<close>.
\<close>

lemma tenth_literal: "round_to_double (1 / 10) = tenth"
  unfolding tenth_def
proof (rule round_to_double_at)
  show "floor_log2 (1 / 10) = - 4"
    unfolding floor_log2_def by (simp add: bit_length.simps)
  show "max (- 4 - 52) (- 1074) = (- 56 :: int)" by simp
  show "round_half_even (1 / 10 / pow2 (- 56)) = 7205759403792794"
    unfolding round_half_even_def Let_def by (simp add: pow2_def)
  show "of_int 7205759403792794 * pow2 (- 56) = (3602879701896397 / 36028797018963968 :: rat)"
    by (simp add: pow2_def)
  show "(3602879701896397 / 36028797018963968 :: rat) < pow2 1024" by (simp add: pow2_def)
qed simp_all

lemma seven_tenths_literal: "round_to_double (7 / 10) = seven_tenths"
  unfolding seven_tenths_def
proof (rule round_to_double_at)
  show "floor_log2 (7 / 10) = - 1"
    unfolding floor_log2_def by (simp add: bit_length.simps)
  show "max (- 1 - 52) (- 1074) = (- 53 :: int)" by simp
  show "round_half_even (7 / 10 / pow2 (- 53)) = 6305039478318694"
    unfolding round_half_even_def Let_def by (simp add: pow2_def)
  show "of_int 6305039478318694 * pow2 (- 53) = (3152519739159347 / 4503599627370496 :: rat)"
    by (simp add: pow2_def)
  show "(3152519739159347 / 4503599627370496 :: rat) < pow2 1024" by (simp add: pow2_def)
qed simp_all

lemma point_eight_literal: "round_to_double (4 / 5) = point_eight"
  unfolding point_eight_def
proof (rule round_to_double_at)
  show "floor_log2 (4 / 5) = - 1"
    unfolding floor_log2_def by (simp add: bit_length.simps)
  show "max (- 1 - 52) (- 1074) = (- 53 :: int)" by simp
  show "round_half_even (4 / 5 / pow2 (- 53)) = 7205759403792794"
    unfolding round_half_even_def Let_def by (simp add: pow2_def)
  show "of_int 7205759403792794 * pow2 (- 53) = (3602879701896397 / 4503599627370496 :: rat)"
    by (simp add: pow2_def)
  show "(3602879701896397 / 4503599627370496 :: rat) < pow2 1024" by (simp add: pow2_def)
qed simp_all

lemma tenth_plus_seven_tenths:
  "js_add tenth seven_tenths = Num (7205759403792793 / 9007199254740992)"
proof -
  have s: "(3602879701896397 / 36028797018963968 + 3152519739159347 / 4503599627370496 :: rat)
      = 28823037615171173 / 36028797018963968" by simp
  have "round_to_double (28823037615171173 / 36028797018963968)
      = Num (7205759403792793 / 9007199254740992)"
  proof (rule round_to_double_at)
    show "floor_log2 (28823037615171173 / 36028797018963968) = - 1"
      unfolding floor_log2_def by (simp add: bit_length.simps)
    show "max (- 1 - 52) (- 1074) = (- 53 :: int)" by simp
    show "round_half_even (28823037615171173 / 36028797018963968 / pow2 (- 53)) = 7205759403792793"
      unfolding round_half_even_def Let_def by (simp add: pow2_def)
    show "of_int 7205759403792793 * pow2 (- 53) = (7205759403792793 / 9007199254740992 :: rat)"
      by (simp add: pow2_def)
    show "(7205759403792793 / 9007199254740992 :: rat) < pow2 1024" by (simp add: pow2_def)
  qed simp_all
  then show ?thesis by (simp add: tenth_def seven_tenths_def s)
qed

lemma tenth_plus_seven_tenths_below:
  "\<not> js_ge (js_add tenth seven_tenths) point_eight"
  by (simp add: tenth_plus_seven_tenths js_ge_def point_eight_def finite_value_def)

text \<open>Sums in the range where doubles are no longer dense enough: \<open>10^16 + 1\<close> is \<open>10^16\<close>.\<close>

lemma ten_to_16_absorbs_one:
  "js_add (Num 10000000000000000) (Num 1) = Num 10000000000000000"
proof -
  have "round_to_double 10000000000000001 = Num 10000000000000000"
  proof (rule round_to_double_at)
    show "floor_log2 10000000000000001 = 53"
      unfolding floor_log2_def by (simp add: bit_length.simps)
    show "max (53 - 52) (- 1074) = (1 :: int)" by simp
    show "round_half_even (10000000000000001 / pow2 1) = 5000000000000000"
      unfolding round_half_even_def Let_def by (simp add: pow2_def)
    show "of_int 5000000000000000 * pow2 1 = (10000000000000000 :: rat)"
      by (simp add: pow2_def)
    show "(10000000000000000 :: rat) < pow2 1024" by (simp add: pow2_def)
  qed simp_all
  then show ?thesis by simp
qed

text \<open>The values used as weights are doubles: adding them to zero leaves them as they are.\<close>

lemma tenth_is_double: "js_add (Num 0) tenth = tenth"
proof -
  have "round_to_double (3602879701896397 / 36028797018963968) =
      Num (3602879701896397 / 36028797018963968)"
  proof (rule round_to_double_at)
    show "floor_log2 (3602879701896397 / 36028797018963968) = - 4"
      unfolding floor_log2_def by (simp add: bit_length.simps)
    show "max (- 4 - 52) (- 1074) = (- 56 :: int)" by simp
    show "round_half_even (3602879701896397 / 36028797018963968 / pow2 (- 56)) = 7205759403792794"
      unfolding round_half_even_def Let_def by (simp add: pow2_def)
    show "of_int 7205759403792794 * pow2 (- 56) = (3602879701896397 / 36028797018963968 :: rat)"
      by (simp add: pow2_def)
    show "(3602879701896397 / 36028797018963968 :: rat) < pow2 1024" by (simp add: pow2_def)
  qed simp_all
  then show ?thesis by (simp add: tenth_def)
qed

lemma ten_to_16_is_double: "js_add (Num 0) (Num 10000000000000000) = Num 10000000000000000"
proof -
  have "round_to_double 10000000000000000 = Num 10000000000000000"
  proof (rule round_to_double_at)
    show "floor_log2 10000000000000000 = 53"
      unfolding floor_log2_def by (simp add: bit_length.simps)
    show "max (53 - 52) (- 1074) = (1 :: int)" by simp
    show "round_half_even (10000000000000000 / pow2 1) = 5000000000000000"
      unfolding round_half_even_def Let_def by (simp add: pow2_def)
    show "of_int 5000000000000000 * pow2 1 = (10000000000000000 :: rat)"
      by (simp add: pow2_def)
    show "(10000000000000000 :: rat) < pow2 1024" by (simp add: pow2_def)
  qed simp_all
  then show ?thesis by simp
qed

lemma Math_min_one_not_gt: "\<not> js_gt (Math_min x (Num 1)) (Num 1)"
  by (cases x) (simp_all add: Math_min_def is_zero_def finite_value_def)

lemma js_div_three:
  "m \<noteq> 0 \<Longrightarrow> js_div (Num (3 * m)) (Num m) = Num 3"
  by (simp add: js_div_def is_zero_def is_infinite_def finite_value_def)

lemma Math_min_three_one: "Math_min (Num 3) (Num 1) = Num 1"
  by (simp add: Math_min_def finite_value_def)

section \<open>Properties of the scan\<close>

subsection \<open>The loops against the reference notions\<close>

lemma check_elements_valid:
  "patterns_valid h es \<Longrightarrow>
   check_elements h src es (det, app, tw, cnt) =
     Inr (det @ map el_id (matched h src es), app @ map el_id (matched h src es),
          foldl js_add tw (map el_weight (matched h src es)), cnt + length (matched h src es))"
proof (induction es arbitrary: det app tw cnt)
  case Nil
  then show ?case by (simp add: matched_def)
next
  case (Cons e es)
  then show ?case
    by (auto simp: matched_def patterns_valid_def pattern_matches_def split: option.splits)
qed

lemma check_elements_invalid:
  "\<not> patterns_valid h es \<Longrightarrow> \<exists>p. check_elements h src es acc = Inl (SyntaxError p)"
proof (induction es arbitrary: acc)
  case Nil
  then show ?case by (simp add: patterns_valid_def)
next
  case (Cons e es)
  obtain det app tw cnt where acc: "acc = (det, app, tw, cnt)" by (cases acc) auto
  show ?case using Cons unfolding acc
    by (auto simp: patterns_valid_def split: option.splits)
qed

lemma matchesAnyPattern_iff:
  "matchesAnyPattern h u ps \<longleftrightarrow>
     list_ex (\<lambda>p. case RegExp h p False of None \<Rightarrow> False | Some test \<Rightarrow> test u) ps"
  by (induction ps) (auto split: option.splits)

lemma isTrustedLoginDomain_iff:
  "isTrustedLoginDomain h pats u \<longleftrightarrow> origin_trusted h pats u"
  by (simp add: isTrustedLoginDomain_def origin_trusted_def matchesAnyPattern_iff
           split: option.splits)

lemma analyze_valid:
  assumes "patterns_valid h (primary_elements req)" "patterns_valid h (secondary_elements req)"
  shows "analyzePageForPhishing h (Some req) pats u src now =
           Inr (verdict_of_scan h pats (detection_thresholds req) u (scanned h req u src now))"
  using assms
  by (simp add: analyzePageForPhishing_def check_elements_valid scanned_def matched_weight_def
        sum_weights_def)

lemma verdict_of_scan_fields:
  "detectedElements (verdict_of_scan h pats t u r) = detectedElements r"
  "totalWeight (verdict_of_scan h pats t u r) = totalWeight r"
  "primaryElementsCount (verdict_of_scan h pats t u r) = primaryElementsCount r"
  "secondaryElementsCount (verdict_of_scan h pats t u r) = secondaryElementsCount r"
  "appliedRules (verdict_of_scan h pats t u r) = appliedRules r"
  by (simp_all add: verdict_of_scan_def Let_def)

lemma verdict_of_scan_isPhishing:
  "\<not> isPhishing r \<Longrightarrow>
   isPhishing (verdict_of_scan h pats t u r) \<longleftrightarrow>
     (js_ge (Num (of_nat (primaryElementsCount r))) (minimum_primary_elements t) \<and>
      js_ge (totalWeight r) (minimum_total_weight t) \<and>
      js_ge (Num (of_nat (length (detectedElements r)))) (minimum_elements_overall t) \<and>
      \<not> isTrustedLoginDomain h pats u)"
  by (auto simp: verdict_of_scan_def Let_def)

lemma verdict_of_scan_confidence:
  assumes "\<not> isPhishing r" "isPhishing (verdict_of_scan h pats t u r)"
  shows "confidence (verdict_of_scan h pats t u r) =
           Math_min (js_div (totalWeight r) (minimum_total_weight t)) (Num 1)"
    and "severity (verdict_of_scan h pats t u r) =
           Some (if js_gt (confidence (verdict_of_scan h pats t u r)) point_eight
                 then ''high'' else ''medium'')"
  using assms by (auto simp: verdict_of_scan_def Let_def split: if_splits)

lemma scanned_fields:
  "\<not> isPhishing (scanned h req u src now)"
  "primaryElementsCount (scanned h req u src now) = length (matched h src (primary_elements req))"
  "secondaryElementsCount (scanned h req u src now) = length (matched h src (secondary_elements req))"
  "totalWeight (scanned h req u src now) = matched_weight h req src"
  "detectedElements (scanned h req u src now) =
     map el_id (matched h src (primary_elements req) @ matched h src (secondary_elements req))"
  "appliedRules (scanned h req u src now) =
     map el_id (matched h src (primary_elements req) @ matched h src (secondary_elements req))"
  "reasons (scanned h req u src now) = []"
  by (simp_all add: scanned_def initial_result_def)

lemma scanned_candidate:
  "candidate_login_page h req src \<longleftrightarrow>
     (js_ge (Num (of_nat (primaryElementsCount (scanned h req u src now))))
        (minimum_primary_elements (detection_thresholds req)) \<and>
      js_ge (totalWeight (scanned h req u src now)) (minimum_total_weight (detection_thresholds req)) \<and>
      js_ge (Num (of_nat (length (detectedElements (scanned h req u src now)))))
        (minimum_elements_overall (detection_thresholds req)))"
  by (simp add: candidate_login_page_def scanned_fields Let_def)

lemma distinct_map_filter_id: "distinct (map f xs) \<Longrightarrow> distinct (map f (filter P xs))"
  by (induction xs) auto

lemma count_list_map_filter:
  "count_list (map f xs) i = length (filter (\<lambda>x. f x = i) xs)"
  by (induction xs) auto

subsection \<open>Evaluation on the sample data\<close>

lemma sample_RegExp_letter [simp]:
  "sample_RegExp ''a'' i = Some (\<lambda>s. has_infix ''a'' (if i then toLowerCase s else s))"
  "sample_RegExp ''b'' i = Some (\<lambda>s. has_infix ''b'' (if i then toLowerCase s else s))"
  "sample_RegExp ''c'' i = Some (\<lambda>s. has_infix ''c'' (if i then toLowerCase s else s))"
  "sample_RegExp ''('' i = None"
  by (simp_all add: sample_RegExp_def)

lemma sample_matches [simp]:
  "pattern_matches sample_host ''ABC'' \<lparr> el_id = i, el_pattern = ''a'', el_weight = w \<rparr>"
  "pattern_matches sample_host ''ABC'' \<lparr> el_id = i, el_pattern = ''b'', el_weight = w \<rparr>"
  "pattern_matches sample_host ''ABC'' \<lparr> el_id = i, el_pattern = ''c'', el_weight = w \<rparr>"
  "\<not> pattern_matches sample_host ''BC'' \<lparr> el_id = i, el_pattern = ''a'', el_weight = w \<rparr>"
  "pattern_matches sample_host ''BC'' \<lparr> el_id = i, el_pattern = ''b'', el_weight = w \<rparr>"
  "pattern_matches sample_host ''BC'' \<lparr> el_id = i, el_pattern = ''c'', el_weight = w \<rparr>"
  "pattern_matches sample_host ''AC'' \<lparr> el_id = i, el_pattern = ''a'', el_weight = w \<rparr>"
  "\<not> pattern_matches sample_host ''AC'' \<lparr> el_id = i, el_pattern = ''b'', el_weight = w \<rparr>"
  "pattern_matches sample_host ''AC'' \<lparr> el_id = i, el_pattern = ''c'', el_weight = w \<rparr>"
  "pattern_matches sample_host ''AB'' \<lparr> el_id = i, el_pattern = ''a'', el_weight = w \<rparr>"
  "pattern_matches sample_host ''AB'' \<lparr> el_id = i, el_pattern = ''b'', el_weight = w \<rparr>"
  "\<not> pattern_matches sample_host ''AB'' \<lparr> el_id = i, el_pattern = ''c'', el_weight = w \<rparr>"
  by (simp_all add: pattern_matches_def sample_host_def toLowerCase_def toLowerCase_char_def)

lemma sample_valid [simp]:
  "patterns_valid sample_host (primary_elements boundary_rules)"
  "patterns_valid sample_host (secondary_elements boundary_rules)"
  "patterns_valid sample_host (primary_elements tripled_rules)"
  "patterns_valid sample_host (secondary_elements tripled_rules)"
  "patterns_valid sample_host (primary_elements degenerate_rules)"
  "patterns_valid sample_host (secondary_elements degenerate_rules)"
  "patterns_valid sample_host (primary_elements infinite_rules)"
  "patterns_valid sample_host (secondary_elements infinite_rules)"
  "patterns_valid sample_host (primary_elements duplicate_rules)"
  "patterns_valid sample_host (secondary_elements duplicate_rules)"
  "patterns_valid sample_host (primary_elements fractional_rules)"
  "patterns_valid sample_host (secondary_elements fractional_rules)"
  by (simp_all add: patterns_valid_def rules_of_def boundary_rules_def tripled_rules_def
        degenerate_rules_def infinite_rules_def duplicate_rules_def fractional_rules_def
        sample_host_def)

lemma sample_untrusted:
  "\<not> origin_trusted sample_host [''microsoftonline''] ''https://evil.example/login''"
  by (simp add: origin_trusted_def sample_host_def sample_RegExp_def)

lemma sample_trusted:
  "origin_trusted sample_host [''microsoftonline''] ''https://login.microsoftonline.com/common''"
  by (simp add: origin_trusted_def sample_host_def sample_RegExp_def)

lemma boundary_matched:
  "matched sample_host ''ABC'' (primary_elements boundary_rules) = primary_elements boundary_rules"
  "matched sample_host ''ABC'' (secondary_elements boundary_rules) = secondary_elements boundary_rules"
  "matched sample_host ''BC'' (primary_elements boundary_rules) = tl (primary_elements boundary_rules)"
  "matched sample_host ''BC'' (secondary_elements boundary_rules) = secondary_elements boundary_rules"
  "matched sample_host ''AC'' (primary_elements boundary_rules) = [hd (primary_elements boundary_rules)]"
  "matched sample_host ''AC'' (secondary_elements boundary_rules) = secondary_elements boundary_rules"
  "matched sample_host ''AB'' (primary_elements boundary_rules) = primary_elements boundary_rules"
  "matched sample_host ''AB'' (secondary_elements boundary_rules) = []"
  by (simp_all add: matched_def boundary_rules_def rules_of_def)

lemma boundary_weight:
  "matched_weight sample_host boundary_rules ''ABC'' = Num 5"
  "matched_weight sample_host boundary_rules ''BC'' = Num 3"
  "matched_weight sample_host boundary_rules ''AC'' = Num 2"
  "matched_weight sample_host boundary_rules ''AB'' = Num 5"
  by (simp_all add: matched_weight_def sum_weights_def boundary_matched)
     (simp_all add: boundary_rules_def rules_of_def)

lemma boundary_candidate: "candidate_login_page sample_host boundary_rules ''ABC''"
  by (simp add: candidate_login_page_def boundary_matched boundary_weight)
     (simp add: boundary_rules_def rules_of_def js_ge_def finite_value_def)

lemma tripled_facts:
  "matched_weight sample_host tripled_rules ''ABC'' = Num 15"
  "candidate_login_page sample_host tripled_rules ''ABC''"
  "minimum_total_weight (detection_thresholds tripled_rules) = Num 5"
  by (simp_all add: candidate_login_page_def matched_weight_def sum_weights_def matched_def
        tripled_rules_def rules_of_def js_ge_def finite_value_def)

subsection \<open>Threshold test\<close>

text \<open>
  C1. For a rule set whose element patterns compile, \<^verbatim>\<open>analyzePageForPhishing\<close> returns a
  result whose counts are those of the matched elements and whose total weight is the sum
  of the matched weights, added as doubles in the order of the rule set. \<open>isPhishing\<close> is
  true exactly when the primary count reaches \<^verbatim>\<open>minimum_primary_elements\<close>, the total
  weight reaches \<^verbatim>\<open>minimum_total_weight\<close>, the number of matched elements (primary plus
  secondary) reaches \<^verbatim>\<open>minimum_elements_overall\<close>, all three by the inclusive
  comparison \<^verbatim>\<open>>=\<close> of doubles, and the page origin matches no trusted login pattern.
\<close>

theorem isPhishing_iff_thresholds_and_untrusted:
  assumes "patterns_valid h (primary_elements req)" "patterns_valid h (secondary_elements req)"
  shows "\<exists>r. analyzePageForPhishing h (Some req) pats u src now = Inr r \<and>
           primaryElementsCount r = length (matched h src (primary_elements req)) \<and>
           secondaryElementsCount r = length (matched h src (secondary_elements req)) \<and>
           totalWeight r = matched_weight h req src \<and>
           (isPhishing r \<longleftrightarrow>
              js_ge (Num (of_nat (primaryElementsCount r)))
                (minimum_primary_elements (detection_thresholds req)) \<and>
              js_ge (totalWeight r) (minimum_total_weight (detection_thresholds req)) \<and>
              js_ge (Num (of_nat (primaryElementsCount r + secondaryElementsCount r)))
                (minimum_elements_overall (detection_thresholds req)) \<and>
              \<not> origin_trusted h pats u)"
proof -
  let ?s = "scanned h req u src now"
  let ?r = "verdict_of_scan h pats (detection_thresholds req) u ?s"
  have run: "analyzePageForPhishing h (Some req) pats u src now = Inr ?r"
    using assms by (rule analyze_valid)
  have np: "\<not> isPhishing ?s" by (rule scanned_fields)
  have len: "length (detectedElements ?s) = primaryElementsCount ?s + secondaryElementsCount ?s"
    by (simp add: scanned_fields)
  have "isPhishing ?r \<longleftrightarrow>
          js_ge (Num (of_nat (primaryElementsCount ?r)))
            (minimum_primary_elements (detection_thresholds req)) \<and>
          js_ge (totalWeight ?r) (minimum_total_weight (detection_thresholds req)) \<and>
          js_ge (Num (of_nat (primaryElementsCount ?r + secondaryElementsCount ?r)))
            (minimum_elements_overall (detection_thresholds req)) \<and>
          \<not> origin_trusted h pats u"
    using verdict_of_scan_isPhishing [OF np, of h pats "detection_thresholds req" u]
    by (simp add: verdict_of_scan_fields len isTrustedLoginDomain_iff)
  moreover have "primaryElementsCount ?r = length (matched h src (primary_elements req))"
    "secondaryElementsCount ?r = length (matched h src (secondary_elements req))"
    "totalWeight ?r = matched_weight h req src"
    by (simp_all add: verdict_of_scan_fields scanned_fields)
  ultimately show ?thesis using run by blast
qed

text \<open>
  The boundary case: thresholds 2, 5 and 3, two primary elements of weights 2 and 3 and
  one secondary element, on an untrusted origin. The page that matches all three is
  flagged; each page that lacks one of them is not.
\<close>

theorem isPhishing_iff_thresholds_and_untrusted_witness:
  "patterns_valid sample_host (primary_elements boundary_rules) \<and>
   patterns_valid sample_host (secondary_elements boundary_rules) \<and>
   (\<exists>r. analyzePageForPhishing sample_host (Some boundary_rules) [''microsoftonline'']
           ''https://evil.example/login'' ''ABC'' ''t'' = Inr r \<and>
         primaryElementsCount r = 2 \<and> secondaryElementsCount r = 1 \<and> totalWeight r = Num 5 \<and>
         isPhishing r) \<and>
   (\<exists>r. analyzePageForPhishing sample_host (Some boundary_rules) [''microsoftonline'']
           ''https://evil.example/login'' ''BC'' ''t'' = Inr r \<and> \<not> isPhishing r) \<and>
   (\<exists>r. analyzePageForPhishing sample_host (Some boundary_rules) [''microsoftonline'']
           ''https://evil.example/login'' ''AC'' ''t'' = Inr r \<and> \<not> isPhishing r) \<and>
   (\<exists>r. analyzePageForPhishing sample_host (Some boundary_rules) [''microsoftonline'']
           ''https://evil.example/login'' ''AB'' ''t'' = Inr r \<and> \<not> isPhishing r)"
proof -
  note inst = isPhishing_iff_thresholds_and_untrusted [OF sample_valid(1,2),
      of "[''microsoftonline'']" "''https://evil.example/login''" _ "''t''"]
  have t: "detection_thresholds boundary_rules =
      \<lparr> minimum_primary_elements = Num 2, minimum_total_weight = Num 5,
        minimum_elements_overall = Num 3 \<rparr>"
    by (simp add: boundary_rules_def rules_of_def)
  have len: "length (primary_elements boundary_rules) = 2"
    "length (secondary_elements boundary_rules) = 1"
    by (simp_all add: boundary_rules_def rules_of_def)
  have full: "\<exists>r. analyzePageForPhishing sample_host (Some boundary_rules) [''microsoftonline'']
           ''https://evil.example/login'' ''ABC'' ''t'' = Inr r \<and>
         primaryElementsCount r = 2 \<and> secondaryElementsCount r = 1 \<and> totalWeight r = Num 5 \<and>
         isPhishing r"
    using inst [of "''ABC''"]
    by (auto simp: boundary_matched boundary_weight sample_untrusted t len js_ge_def finite_value_def)
  have no1: "\<exists>r. analyzePageForPhishing sample_host (Some boundary_rules) [''microsoftonline'']
           ''https://evil.example/login'' ''BC'' ''t'' = Inr r \<and> \<not> isPhishing r"
    using inst [of "''BC''"]
    by (auto simp: boundary_matched boundary_weight sample_untrusted t len js_ge_def finite_value_def)
  have no2: "\<exists>r. analyzePageForPhishing sample_host (Some boundary_rules) [''microsoftonline'']
           ''https://evil.example/login'' ''AC'' ''t'' = Inr r \<and> \<not> isPhishing r"
    using inst [of "''AC''"]
    by (auto simp: boundary_matched boundary_weight sample_untrusted t len js_ge_def finite_value_def)
  have no3: "\<exists>r. analyzePageForPhishing sample_host (Some boundary_rules) [''microsoftonline'']
           ''https://evil.example/login'' ''AB'' ''t'' = Inr r \<and> \<not> isPhishing r"
    using inst [of "''AB''"]
    by (auto simp: boundary_matched boundary_weight sample_untrusted t len js_ge_def finite_value_def)
  show ?thesis using sample_valid(1,2) full no1 no2 no3 by blast
qed

text \<open>
  The weight comparison is one of doubles. The weights 0.1 and 0.7 add up to
  0.7999999999999999, below the threshold 0.8; the weights \<open>10^16\<close>, 1 and 1 add up to
  \<open>10^16\<close>, below the threshold \<open>10^16 + 2\<close>. Neither page is flagged.
\<close>

lemma rounded_sum_below_threshold:
  "analyzePageForPhishing sample_host (Some fractional_rules) [''microsoftonline'']
     ''https://evil.example/login'' ''ABC'' ''t'' =
   Inr \<lparr> isPhishing = False, confidence = Num 0, detectedElements = [''p1'', ''p2''],
         totalWeight = Num (7205759403792793 / 9007199254740992),
         primaryElementsCount = 2, secondaryElementsCount = 0,
         reasons = [''Insufficient indicators for Microsoft 365 login page''],
         appliedRules = [''p1'', ''p2''], timestamp = ''t'',
         url = ''https://evil.example/login'', severity = None \<rparr>"
proof -
  have m: "matched sample_host ''ABC'' (primary_elements fractional_rules) =
      primary_elements fractional_rules"
    "matched sample_host ''ABC'' (secondary_elements fractional_rules) = []"
    by (simp_all add: matched_def fractional_rules_def rules_of_def)
  have w: "matched_weight sample_host fractional_rules ''ABC'' =
      Num (7205759403792793 / 9007199254740992)"
    by (simp add: matched_weight_def sum_weights_def m)
       (simp add: fractional_rules_def rules_of_def tenth_is_double tenth_plus_seven_tenths
          del: js_add.simps)
  have t: "minimum_total_weight (detection_thresholds fractional_rules) = point_eight"
    by (simp add: fractional_rules_def rules_of_def)
  have below: "\<not> js_ge (Num (7205759403792793 / 9007199254740992)) point_eight"
    using tenth_plus_seven_tenths_below by (simp add: tenth_plus_seven_tenths)
  show ?thesis
    by (simp add: analyze_valid verdict_of_scan_def scanned_def initial_result_def w t below m)
       (simp add: fractional_rules_def rules_of_def)
qed

lemma absorbed_sum_below_threshold:
  "analyzePageForPhishing sample_host (Some absorbing_rules) [''microsoftonline'']
     ''https://evil.example/login'' ''ABC'' ''t'' =
   Inr \<lparr> isPhishing = False, confidence = Num 0, detectedElements = [''p1'', ''p2'', ''s1''],
         totalWeight = Num 10000000000000000,
         primaryElementsCount = 2, secondaryElementsCount = 1,
         reasons = [''Insufficient indicators for Microsoft 365 login page''],
         appliedRules = [''p1'', ''p2'', ''s1''], timestamp = ''t'',
         url = ''https://evil.example/login'', severity = None \<rparr>"
proof -
  have v: "patterns_valid sample_host (primary_elements absorbing_rules)"
    "patterns_valid sample_host (secondary_elements absorbing_rules)"
    by (simp_all add: patterns_valid_def absorbing_rules_def rules_of_def sample_host_def)
  have m: "matched sample_host ''ABC'' (primary_elements absorbing_rules) =
      primary_elements absorbing_rules"
    "matched sample_host ''ABC'' (secondary_elements absorbing_rules) =
      secondary_elements absorbing_rules"
    by (simp_all add: matched_def absorbing_rules_def rules_of_def)
  have w: "matched_weight sample_host absorbing_rules ''ABC'' = Num 10000000000000000"
    by (simp add: matched_weight_def sum_weights_def m)
       (simp add: absorbing_rules_def rules_of_def ten_to_16_is_double ten_to_16_absorbs_one
          del: js_add.simps)
  have t: "minimum_total_weight (detection_thresholds absorbing_rules) = Num 10000000000000002"
    by (simp add: absorbing_rules_def rules_of_def)
  show ?thesis
    by (simp add: analyze_valid v verdict_of_scan_def scanned_def initial_result_def w t m
          js_ge_def finite_value_def)
       (simp add: absorbing_rules_def rules_of_def)
qed

subsection \<open>Confidence and severity\<close>

text \<open>
  C2. With thresholds 0, 0, 0 and no rule element, a page on an untrusted origin passes the
  candidate test with total weight 0, which is three times the minimum weight; the
  quotient 0 / 0 is NaN, so the reported confidence is NaN and not 1. The same happens
  when the one matched weight and the minimum weight are both infinite (the JSON literal
  \<^verbatim>\<open>1e999\<close>): the quotient of the two infinities is NaN.
\<close>

theorem confidence_zero_threshold_counterexample:
  "analyzePageForPhishing sample_host (Some degenerate_rules) [''microsoftonline'']
     ''https://evil.example/login'' ''ABC'' ''t'' =
   Inr \<lparr> isPhishing = True, confidence = NaN, detectedElements = [], totalWeight = Num 0,
         primaryElementsCount = 0, secondaryElementsCount = 0,
         reasons = [''Microsoft 365 login page detected on untrusted domain''],
         appliedRules = [], timestamp = ''t'', url = ''https://evil.example/login'',
         severity = Some ''medium'' \<rparr> \<and>
   analyzePageForPhishing sample_host (Some infinite_rules) [''microsoftonline'']
     ''https://evil.example/login'' ''ABC'' ''t'' =
   Inr \<lparr> isPhishing = True, confidence = NaN, detectedElements = [''p1''], totalWeight = PosInf,
         primaryElementsCount = 1, secondaryElementsCount = 0,
         reasons = [''Microsoft 365 login page detected on untrusted domain''],
         appliedRules = [''p1''], timestamp = ''t'', url = ''https://evil.example/login'',
         severity = Some ''medium'' \<rparr>"
proof -
  have m: "matched sample_host ''ABC'' (primary_elements infinite_rules) =
      primary_elements infinite_rules"
    "matched sample_host ''ABC'' (secondary_elements infinite_rules) = []"
    "matched sample_host ''ABC'' (primary_elements degenerate_rules) = []"
    "matched sample_host ''ABC'' (secondary_elements degenerate_rules) = []"
    by (simp_all add: matched_def infinite_rules_def degenerate_rules_def rules_of_def)
  have u: "\<not> isTrustedLoginDomain sample_host [''microsoftonline''] ''https://evil.example/login''"
    by (simp add: isTrustedLoginDomain_iff sample_untrusted)
  have a: "analyzePageForPhishing sample_host (Some degenerate_rules) [''microsoftonline'']
     ''https://evil.example/login'' ''ABC'' ''t'' =
   Inr \<lparr> isPhishing = True, confidence = NaN, detectedElements = [], totalWeight = Num 0,
         primaryElementsCount = 0, secondaryElementsCount = 0,
         reasons = [''Microsoft 365 login page detected on untrusted domain''],
         appliedRules = [], timestamp = ''t'', url = ''https://evil.example/login'',
         severity = Some ''medium'' \<rparr>"
    by (simp add: analyze_valid verdict_of_scan_def scanned_def initial_result_def
          matched_weight_def sum_weights_def m u)
       (simp add: degenerate_rules_def rules_of_def js_ge_def js_div_def Math_min_def
          is_zero_def is_infinite_def sign_negative_def finite_value_def)
  have b: "analyzePageForPhishing sample_host (Some infinite_rules) [''microsoftonline'']
     ''https://evil.example/login'' ''ABC'' ''t'' =
   Inr \<lparr> isPhishing = True, confidence = NaN, detectedElements = [''p1''], totalWeight = PosInf,
         primaryElementsCount = 1, secondaryElementsCount = 0,
         reasons = [''Microsoft 365 login page detected on untrusted domain''],
         appliedRules = [''p1''], timestamp = ''t'', url = ''https://evil.example/login'',
         severity = Some ''medium'' \<rparr>"
    by (simp add: analyze_valid verdict_of_scan_def scanned_def initial_result_def
          matched_weight_def sum_weights_def m u)
       (simp add: infinite_rules_def rules_of_def js_ge_def js_div_def Math_min_def
          is_zero_def is_infinite_def sign_negative_def finite_value_def)
  show ?thesis using a b by (rule conjI)
qed

text \<open>
  C2, amended. For a scan that passes the candidate test on an untrusted origin, the
  confidence is \<^verbatim>\<open>Math.min(totalWeight / minimum_total_weight, 1)\<close> in double arithmetic.
  When \<^verbatim>\<open>minimum_total_weight\<close> is finite and not zero and the total weight is three
  times it, the confidence is exactly 1. In every case the confidence does not exceed 1,
  and the severity is high exactly when the confidence is greater than 0.8, medium
  otherwise.
\<close>

theorem confidence_clamped:
  assumes valid: "patterns_valid h (primary_elements req)" "patterns_valid h (secondary_elements req)"
    and cand: "candidate_login_page h req src"
    and untrusted: "\<not> origin_trusted h pats u"
  shows "\<exists>r. analyzePageForPhishing h (Some req) pats u src now = Inr r \<and> isPhishing r \<and>
           confidence r =
             Math_min (js_div (totalWeight r) (minimum_total_weight (detection_thresholds req)))
               (Num 1) \<and>
           (\<forall>m. minimum_total_weight (detection_thresholds req) = Num m \<and> m \<noteq> 0 \<and>
                totalWeight r = Num (3 * m) \<longrightarrow> confidence r = Num 1) \<and>
           \<not> js_gt (confidence r) (Num 1) \<and>
           severity r = Some (if js_gt (confidence r) point_eight then ''high'' else ''medium'')"
proof -
  let ?t = "detection_thresholds req"
  let ?s = "scanned h req u src now"
  let ?r = "verdict_of_scan h pats ?t u ?s"
  have run: "analyzePageForPhishing h (Some req) pats u src now = Inr ?r"
    using valid by (rule analyze_valid)
  have np: "\<not> isPhishing ?s" by (rule scanned_fields)
  have ph: "isPhishing ?r"
    using cand untrusted scanned_candidate [of h req src u now]
      verdict_of_scan_isPhishing [OF np, of h pats ?t u]
    by (simp add: isTrustedLoginDomain_iff)
  note facts = verdict_of_scan_confidence [OF np ph]
  have tw: "totalWeight ?r = totalWeight ?s" by (simp add: verdict_of_scan_fields)
  have conf: "confidence ?r = Math_min (js_div (totalWeight ?r) (minimum_total_weight ?t)) (Num 1)"
    using facts(1) by (simp add: tw)
  have c3: "\<forall>m. minimum_total_weight ?t = Num m \<and> m \<noteq> 0 \<and> totalWeight ?r = Num (3 * m) \<longrightarrow>
            confidence ?r = Num 1"
  proof (intro allI impI)
    fix m
    assume a: "minimum_total_weight ?t = Num m \<and> m \<noteq> 0 \<and> totalWeight ?r = Num (3 * m)"
    then have "js_div (totalWeight ?r) (minimum_total_weight ?t) = Num 3"
      using js_div_three [of m] by simp
    then show "confidence ?r = Num 1"
      using conf Math_min_three_one by simp
  qed
  have c4: "\<not> js_gt (confidence ?r) (Num 1)"
    unfolding conf by (rule Math_min_one_not_gt)
  have c5: "severity ?r = Some (if js_gt (confidence ?r) point_eight then ''high'' else ''medium'')"
    using facts(2) by simp
  show ?thesis using run ph conf c3 c4 c5 by blast
qed

theorem confidence_clamped_witness:
  "patterns_valid sample_host (primary_elements tripled_rules) \<and>
   patterns_valid sample_host (secondary_elements tripled_rules) \<and>
   candidate_login_page sample_host tripled_rules ''ABC'' \<and>
   \<not> origin_trusted sample_host [''microsoftonline''] ''https://evil.example/login'' \<and>
   (\<exists>r. analyzePageForPhishing sample_host (Some tripled_rules) [''microsoftonline'']
           ''https://evil.example/login'' ''ABC'' ''t'' = Inr r \<and> isPhishing r \<and>
         minimum_total_weight (detection_thresholds tripled_rules) = Num 5 \<and>
         totalWeight r = Num (3 * 5) \<and>
         confidence r = Num 1 \<and> severity r = Some ''high'')"
proof -
  from confidence_clamped [OF sample_valid(3,4) tripled_facts(2) sample_untrusted, of "''t''"]
  obtain r where r: "analyzePageForPhishing sample_host (Some tripled_rules) [''microsoftonline'']
           ''https://evil.example/login'' ''ABC'' ''t'' = Inr r" "isPhishing r"
     "\<forall>m. minimum_total_weight (detection_thresholds tripled_rules) = Num m \<and> m \<noteq> 0 \<and>
            totalWeight r = Num (3 * m) \<longrightarrow> confidence r = Num 1"
     "severity r = Some (if js_gt (confidence r) point_eight then ''high'' else ''medium'')"
    by blast
  from r(1) have "r = verdict_of_scan sample_host [''microsoftonline'']
      (detection_thresholds tripled_rules) ''https://evil.example/login''
      (scanned sample_host tripled_rules ''https://evil.example/login'' ''ABC'' ''t'')"
    by (simp add: analyze_valid)
  then have tw: "totalWeight r = Num (3 * 5)"
    using tripled_facts(1) by (simp add: verdict_of_scan_fields scanned_fields)
  from r(3) tw tripled_facts(3) have c: "confidence r = Num 1" by simp
  with r(4) have s: "severity r = Some ''high''"
    by (simp add: point_eight_def finite_value_def)
  show ?thesis
    using sample_valid(3,4) tripled_facts(2,3) sample_untrusted r(1,2) tw c s by blast
qed

text \<open>
  A positive weight over the threshold \<^verbatim>\<open>-0\<close> gives the quotient \<^verbatim>\<open>-Infinity\<close>, which
  is the confidence reported, with severity medium.
\<close>

lemma negative_zero_threshold_confidence:
  "analyzePageForPhishing sample_host (Some negative_zero_rules) [''microsoftonline'']
     ''https://evil.example/login'' ''ABC'' ''t'' =
   Inr \<lparr> isPhishing = True, confidence = NegInf, detectedElements = [''p1''],
         totalWeight = Num 2, primaryElementsCount = 1, secondaryElementsCount = 0,
         reasons = [''Microsoft 365 login page detected on untrusted domain''],
         appliedRules = [''p1''], timestamp = ''t'', url = ''https://evil.example/login'',
         severity = Some ''medium'' \<rparr>"
proof -
  have v: "patterns_valid sample_host (primary_elements negative_zero_rules)"
    "patterns_valid sample_host (secondary_elements negative_zero_rules)"
    by (simp_all add: patterns_valid_def negative_zero_rules_def rules_of_def sample_host_def)
  have m: "matched sample_host ''ABC'' (primary_elements negative_zero_rules) =
      primary_elements negative_zero_rules"
    "matched sample_host ''ABC'' (secondary_elements negative_zero_rules) = []"
    by (simp_all add: matched_def negative_zero_rules_def rules_of_def)
  have u: "\<not> isTrustedLoginDomain sample_host [''microsoftonline''] ''https://evil.example/login''"
    by (simp add: isTrustedLoginDomain_iff sample_untrusted)
  show ?thesis
    by (simp add: analyze_valid v verdict_of_scan_def scanned_def initial_result_def
          matched_weight_def sum_weights_def m u)
       (simp add: negative_zero_rules_def rules_of_def js_ge_def js_div_def Math_min_def
          is_zero_def is_infinite_def sign_negative_def finite_value_def point_eight_def)
qed

subsection \<open>Trusted origins\<close>

text \<open>
  C3. Two scans of the same markup with the same rules, both passing the candidate test,
  one on a URL whose origin matches a trusted login pattern and one on a URL whose origin
  does not: the first is not phishing, with the trusted-domain reason recorded, the second
  is phishing, and the matched elements, applied rules, total weight and counts of the two
  results are equal.
\<close>

theorem trusted_origin_suppresses_phishing:
  assumes valid: "patterns_valid h (primary_elements req)" "patterns_valid h (secondary_elements req)"
    and cand: "candidate_login_page h req src"
    and t1: "origin_trusted h pats u1"
    and t2: "\<not> origin_trusted h pats u2"
  shows "\<exists>r1 r2.
           analyzePageForPhishing h (Some req) pats u1 src now = Inr r1 \<and>
           analyzePageForPhishing h (Some req) pats u2 src now = Inr r2 \<and>
           \<not> isPhishing r1 \<and> reasons r1 = [''Microsoft 365 login page on trusted domain''] \<and>
           isPhishing r2 \<and>
           detectedElements r1 = detectedElements r2 \<and> appliedRules r1 = appliedRules r2 \<and>
           totalWeight r1 = totalWeight r2 \<and>
           primaryElementsCount r1 = primaryElementsCount r2 \<and>
           secondaryElementsCount r1 = secondaryElementsCount r2"
proof -
  let ?t = "detection_thresholds req"
  let ?r1 = "verdict_of_scan h pats ?t u1 (scanned h req u1 src now)"
  let ?r2 = "verdict_of_scan h pats ?t u2 (scanned h req u2 src now)"
  have run1: "analyzePageForPhishing h (Some req) pats u1 src now = Inr ?r1"
    and run2: "analyzePageForPhishing h (Some req) pats u2 src now = Inr ?r2"
    using valid by (rule analyze_valid)+
  note c1 = cand [unfolded scanned_candidate [of h req src u1 now]]
  note c2 = cand [unfolded scanned_candidate [of h req src u2 now]]
  have a: "\<not> isPhishing ?r1" "reasons ?r1 = [''Microsoft 365 login page on trusted domain'']"
    using c1 t1
    by (simp_all add: verdict_of_scan_def isTrustedLoginDomain_iff scanned_fields)
  have b: "isPhishing ?r2"
    using c2 t2 by (simp add: verdict_of_scan_def isTrustedLoginDomain_iff Let_def)
  have e: "detectedElements ?r1 = detectedElements ?r2" "appliedRules ?r1 = appliedRules ?r2"
      "totalWeight ?r1 = totalWeight ?r2" "primaryElementsCount ?r1 = primaryElementsCount ?r2"
      "secondaryElementsCount ?r1 = secondaryElementsCount ?r2"
    by (simp_all add: verdict_of_scan_fields scanned_fields)
  show ?thesis using run1 run2 a b e by blast
qed

theorem trusted_origin_suppresses_phishing_witness:
  "patterns_valid sample_host (primary_elements boundary_rules) \<and>
   patterns_valid sample_host (secondary_elements boundary_rules) \<and>
   candidate_login_page sample_host boundary_rules ''ABC'' \<and>
   origin_trusted sample_host [''microsoftonline''] ''https://login.microsoftonline.com/common'' \<and>
   \<not> origin_trusted sample_host [''microsoftonline''] ''https://evil.example/login'' \<and>
   (\<exists>r1 r2.
      analyzePageForPhishing sample_host (Some boundary_rules) [''microsoftonline'']
        ''https://login.microsoftonline.com/common'' ''ABC'' ''t'' = Inr r1 \<and>
      analyzePageForPhishing sample_host (Some boundary_rules) [''microsoftonline'']
        ''https://evil.example/login'' ''ABC'' ''t'' = Inr r2 \<and>
      \<not> isPhishing r1 \<and> isPhishing r2 \<and> detectedElements r1 = detectedElements r2)"
  using sample_valid(1,2) boundary_candidate sample_trusted sample_untrusted
    trusted_origin_suppresses_phishing [OF sample_valid(1,2) boundary_candidate sample_trusted
      sample_untrusted, of "''t''"]
  by blast

subsection \<open>Invalid patterns\<close>

text \<open>
  C4. A rule set with the invalid pattern \<^verbatim>\<open>(\<close> between two valid primary elements:
  the scan ends with the SyntaxError and produces no result, although the remaining
  elements would pass the thresholds. \<^verbatim>\<open>matchesAnyPattern\<close>, on the same invalid
  pattern, skips it and goes on to the next one.
\<close>

theorem invalid_element_pattern_aborts_scan:
  "analyzePageForPhishing sample_host (Some broken_rules) [''microsoftonline'']
     ''https://evil.example/login'' ''ABC'' ''t'' = Inl (SyntaxError ''('') \<and>
   matchesAnyPattern sample_host ''https://login.microsoftonline.com'' [''('', ''microsoftonline'']"
  by (simp add: analyzePageForPhishing_def broken_rules_def rules_of_def sample_host_def
        toLowerCase_def toLowerCase_char_def)
     (simp add: sample_RegExp_def)

subsection \<open>Repeated element ids\<close>

text \<open>
  C8. A rule set that lists the id \<^verbatim>\<open>p1\<close> twice among the primary elements and once
  among the secondary ones, all matching: the id is recorded three times and its weight is
  added three times.
\<close>

theorem duplicate_id_counted_again_counterexample:
  "analyzePageForPhishing sample_host (Some duplicate_rules) [''microsoftonline'']
     ''https://evil.example/login'' ''ABC'' ''t'' =
   Inr \<lparr> isPhishing = True, confidence = Num 1, detectedElements = [''p1'', ''p1'', ''p1''],
         totalWeight = Num 6, primaryElementsCount = 2, secondaryElementsCount = 1,
         reasons = [''Microsoft 365 login page detected on untrusted domain''],
         appliedRules = [''p1'', ''p1'', ''p1''], timestamp = ''t'',
         url = ''https://evil.example/login'', severity = Some ''high'' \<rparr>"
proof -
  have m: "matched sample_host ''ABC'' (primary_elements duplicate_rules) =
      primary_elements duplicate_rules"
    "matched sample_host ''ABC'' (secondary_elements duplicate_rules) =
      secondary_elements duplicate_rules"
    by (simp_all add: matched_def duplicate_rules_def rules_of_def)
  have u: "\<not> isTrustedLoginDomain sample_host [''microsoftonline''] ''https://evil.example/login''"
    by (simp add: isTrustedLoginDomain_iff sample_untrusted)
  show ?thesis
    by (simp add: analyze_valid verdict_of_scan_def scanned_def initial_result_def
          matched_weight_def sum_weights_def m u)
       (simp add: duplicate_rules_def rules_of_def js_ge_def js_div_def Math_min_def
          is_zero_def is_infinite_def sign_negative_def finite_value_def point_eight_def)
qed

text \<open>
  C8, amended. Every entry of the rule set contributes at most once, and entries are not
  compared by id: the detected ids are the ids of the matching entries in the order of the
  rule set, so that an id is recorded as many times as there are matching entries that
  carry it, and the total weight is the sum, in double arithmetic, of the weights of the
  matching entries. When the ids of the primary and secondary lists are pairwise distinct,
  no id appears twice among the detected elements.
\<close>

theorem distinct_ids_contribute_once:
  assumes valid: "patterns_valid h (primary_elements req)" "patterns_valid h (secondary_elements req)"
  shows "\<exists>r. analyzePageForPhishing h (Some req) pats u src now = Inr r \<and>
           detectedElements r =
             map el_id (matched h src (primary_elements req @ secondary_elements req)) \<and>
           totalWeight r =
             sum_weights (map el_weight (matched h src (primary_elements req @ secondary_elements req))) \<and>
           (\<forall>i. count_list (detectedElements r) i =
                  length (filter (\<lambda>e. el_id e = i \<and> pattern_matches h src e)
                            (primary_elements req @ secondary_elements req))) \<and>
           (distinct (map el_id (primary_elements req @ secondary_elements req)) \<longrightarrow>
              distinct (detectedElements r))"
proof -
  let ?all = "primary_elements req @ secondary_elements req"
  let ?r = "verdict_of_scan h pats (detection_thresholds req) u (scanned h req u src now)"
  have run: "analyzePageForPhishing h (Some req) pats u src now = Inr ?r"
    using valid by (rule analyze_valid)
  have split: "matched h src ?all =
      matched h src (primary_elements req) @ matched h src (secondary_elements req)"
    by (simp add: matched_def)
  have det: "detectedElements ?r = map el_id (matched h src ?all)"
    by (simp add: verdict_of_scan_fields scanned_fields split)
  have tw: "totalWeight ?r = sum_weights (map el_weight (matched h src ?all))"
    by (simp add: verdict_of_scan_fields scanned_fields split matched_weight_def)
  have cnt: "\<forall>i. count_list (detectedElements ?r) i =
      length (filter (\<lambda>e. el_id e = i \<and> pattern_matches h src e) ?all)"
    unfolding det matched_def by (simp add: count_list_map_filter conj_commute)
  have dis: "distinct (map el_id ?all) \<longrightarrow> distinct (detectedElements ?r)"
    unfolding det matched_def by (auto intro: distinct_map_filter_id)
  show ?thesis using run det tw cnt dis by blast
qed

theorem distinct_ids_contribute_once_witness:
  "patterns_valid sample_host (primary_elements boundary_rules) \<and>
   patterns_valid sample_host (secondary_elements boundary_rules) \<and>
   distinct (map el_id (primary_elements boundary_rules @ secondary_elements boundary_rules)) \<and>
   (\<exists>r. analyzePageForPhishing sample_host (Some boundary_rules) [''microsoftonline'']
           ''https://evil.example/login'' ''ABC'' ''t'' = Inr r \<and>
         distinct (detectedElements r) \<and> detectedElements r = [''p1'', ''p2'', ''s1''] \<and>
         totalWeight r = Num 5)"
proof -
  have ids: "distinct (map el_id (primary_elements boundary_rules @ secondary_elements boundary_rules))"
    by (simp add: boundary_rules_def rules_of_def)
  have m: "matched sample_host ''ABC'' (primary_elements boundary_rules @ secondary_elements boundary_rules)
      = primary_elements boundary_rules @ secondary_elements boundary_rules"
    using boundary_matched(1,2) by (simp add: matched_def)
  have w: "sum_weights (map el_weight (primary_elements boundary_rules @ secondary_elements boundary_rules))
      = Num 5"
    using boundary_weight(1) by (simp add: matched_weight_def boundary_matched)
  have e: "map el_id (primary_elements boundary_rules @ secondary_elements boundary_rules) =
      [''p1'', ''p2'', ''s1'']"
    by (simp add: boundary_rules_def rules_of_def)
  from distinct_ids_contribute_once [OF sample_valid(1,2), of "[''microsoftonline'']"
        "''https://evil.example/login''" "''ABC''" "''t''"]
  obtain r where r: "analyzePageForPhishing sample_host (Some boundary_rules) [''microsoftonline'']
           ''https://evil.example/login'' ''ABC'' ''t'' = Inr r"
    "detectedElements r = map el_id (matched sample_host ''ABC''
        (primary_elements boundary_rules @ secondary_elements boundary_rules))"
    "totalWeight r = sum_weights (map el_weight (matched sample_host ''ABC''
        (primary_elements boundary_rules @ secondary_elements boundary_rules)))"
    "distinct (map el_id (primary_elements boundary_rules @ secondary_elements boundary_rules)) \<longrightarrow>
       distinct (detectedElements r)"
    by blast
  have "distinct (detectedElements r)" using r(4) ids by simp
  moreover have "detectedElements r = [''p1'', ''p2'', ''s1'']" using r(2) by (simp only: m e)
  moreover have "totalWeight r = Num 5" using r(3) by (simp only: m w)
  ultimately show ?thesis using sample_valid(1,2) ids r(1) by blast
qed

section \<open>Properties of the background worker\<close>

subsection \<open>Verdicts from tab updates\<close>

lemma handleTabUpdate_session_cases:
  "session (handleTabUpdate h ev s) = session s \<or>
   (\<exists>u v. tab_url ev = Some u \<and> u \<noteq> [] \<and> change_status ev = Some ''complete'' \<and>
        isInitialized s \<and> session_set_ok ev \<and>
        verdictForUrl h (policy s) (extraWhitelist s) u = Inr v \<and>
        shouldUpdateVerdict
          (if session_get_ok ev then map_option verdict (session s (tabId ev)) else None) v \<and>
        session (handleTabUpdate h ev s) =
          (session s)(tabId ev \<mapsto> \<lparr> verdict = v, entry_url = Some u \<rparr>))"
  by (auto simp: handleTabUpdate_def setBadge_def Let_def truthy_def split: option.splits sum.splits)

lemma shouldUpdateVerdict_iff:
  "shouldUpdateVerdict existing v \<longleftrightarrow>
     (existing = None \<or> existing = Some [] \<or> existing = Some ''not-evaluated'' \<or>
      (existing = Some ''trusted'' \<and> v \<noteq> ''trusted''))"
  by (auto simp: shouldUpdateVerdict_def truthy_def split: option.splits)

lemma specific_not_updated:
  "specific_verdict v \<Longrightarrow> \<not> shouldUpdateVerdict (Some v) w"
  by (auto simp: shouldUpdateVerdict_iff specific_verdict_def)

text \<open>
  When the read of the session storage goes through, a stored \<^verbatim>\<open>phishy\<close>,
  \<^verbatim>\<open>rogue-app\<close> or \<^verbatim>\<open>ms-login-unknown\<close> verdict survives a tab update, and so it
  survives every sequence of tab updates whose reads go through.
\<close>

lemma handleTabUpdate_keeps_specific:
  assumes "session s tab = Some e" "specific_verdict (verdict e)" "session_get_ok ev"
  shows "session (handleTabUpdate h ev s) tab = Some e"
proof -
  from handleTabUpdate_session_cases [of h ev s] show ?thesis
  proof
    assume "session (handleTabUpdate h ev s) = session s"
    with assms show ?thesis by simp
  next
    assume "\<exists>u v. tab_url ev = Some u \<and> u \<noteq> [] \<and> change_status ev = Some ''complete'' \<and>
        isInitialized s \<and> session_set_ok ev \<and>
        verdictForUrl h (policy s) (extraWhitelist s) u = Inr v \<and>
        shouldUpdateVerdict
          (if session_get_ok ev then map_option verdict (session s (tabId ev)) else None) v \<and>
        session (handleTabUpdate h ev s) =
          (session s)(tabId ev \<mapsto> \<lparr> verdict = v, entry_url = Some u \<rparr>)"
    then obtain u v where
      su: "shouldUpdateVerdict
          (if session_get_ok ev then map_option verdict (session s (tabId ev)) else None) v" and
      eq: "session (handleTabUpdate h ev s) =
          (session s)(tabId ev \<mapsto> \<lparr> verdict = v, entry_url = Some u \<rparr>)"
      by blast
    have "tabId ev \<noteq> tab"
    proof
      assume "tabId ev = tab"
      with su assms specific_not_updated [of "verdict e"] show False by simp
    qed
    with eq assms show ?thesis by simp
  qed
qed

lemma successful_reads_keep_specific:
  "session s tab = Some e \<Longrightarrow> specific_verdict (verdict e) \<Longrightarrow> list_all session_get_ok evs \<Longrightarrow>
   session (handleTabUpdates h evs s) tab = Some e"
  by (induction evs arbitrary: s) (simp_all add: handleTabUpdate_keeps_specific)

text \<open>
  A tab update changes the session storage only when the verdict it read is missing
  (also because the read failed) or empty, is \<^verbatim>\<open>not-evaluated\<close>, or is \<^verbatim>\<open>trusted\<close>
  while the verdict written is not.
\<close>

lemma session_written_only_over_generic:
  assumes "session (handleTabUpdate h ev s) \<noteq> session s"
  shows "\<not> session_get_ok ev \<or>
         map_option verdict (session s (tabId ev)) \<in> {None, Some [], Some ''not-evaluated''} \<or>
         (map_option verdict (session s (tabId ev)) = Some ''trusted'' \<and>
          map_option verdict (session (handleTabUpdate h ev s) (tabId ev)) \<noteq> Some ''trusted'')"
  using assms handleTabUpdate_session_cases [of h ev s]
  by (auto simp: shouldUpdateVerdict_iff split: if_splits)

lemma sample_verdict:
  "verdictForUrl sample_host None [] ''https://evil.example/login'' = Inr ''not-evaluated''"
  by (simp add: verdictForUrl_def urlOrigin_def sample_host_def default_trusted_origins_def
        toLowerCase_def toLowerCase_char_def)

text \<open>
  C5. Tab 7 holds the verdict \<^verbatim>\<open>phishy\<close>. A tab update for it arrives while the read of
  the session storage is rejected: the URL-based verdict \<^verbatim>\<open>not-evaluated\<close> replaces
  \<^verbatim>\<open>phishy\<close>. The same update with a read that goes through leaves \<^verbatim>\<open>phishy\<close> in
  place.
\<close>

theorem failed_session_read_overwrites_verdict:
  "session sample_background 7 =
     Some \<lparr> verdict = ''phishy'', entry_url = Some ''https://evil.example/login'' \<rparr> \<and>
   session (handleTabUpdate sample_host ((sample_update 7)\<lparr> session_get_ok := False \<rparr>)
              sample_background) 7 =
     Some \<lparr> verdict = ''not-evaluated'', entry_url = Some ''https://evil.example/login'' \<rparr> \<and>
   session (handleTabUpdate sample_host (sample_update 7) sample_background) 7 =
     Some \<lparr> verdict = ''phishy'', entry_url = Some ''https://evil.example/login'' \<rparr>"
  by (simp add: handleTabUpdate_def sample_update_def sample_background_def new_background_def
        js_or_def truthy_def shouldUpdateVerdict_def setBadge_def sample_verdict)

subsection \<open>Tab removal\<close>

lemma onTabRemoved_session: "session (onTabRemoved tab s) = session s"
  by (simp add: onTabRemoved_def)

lemma onTabRemoved_caches:
  "tabHeaders (onTabRemoved tab s) tab = None \<and> tabQueues (onTabRemoved tab s) tab = None \<and>
   tabDebounce (onTabRemoved tab s) tab = None \<and>
   (tabDebounce s tab = Some t \<longrightarrow> t \<notin> timers (onTabRemoved tab s))"
  by (simp add: onTabRemoved_def)

lemma handleTabRemoved_deletes_verdict: "session (handleTabRemoved tab s) tab = None"
  by (simp add: handleTabRemoved_def)

text \<open>
  C6. A worker that holds a \<^verbatim>\<open>phishy\<close> verdict, a header-cache entry, a queue and a
  pending debounce timer for tab 7 receives the removal of tab 7: the header-cache entry,
  the queue and the timer are gone, and the verdict is still in the session storage.
\<close>

theorem tab_removed_keeps_session_verdict:
  "session (onTabRemoved 7 sample_background) 7 =
     Some \<lparr> verdict = ''phishy'', entry_url = Some ''https://evil.example/login'' \<rparr> \<and>
   tabHeaders (onTabRemoved 7 sample_background) 7 = None \<and>
   tabQueues (onTabRemoved 7 sample_background) 7 = None \<and>
   tabDebounce (onTabRemoved 7 sample_background) 7 = None \<and>
   timers (onTabRemoved 7 sample_background) = {}"
  by (simp add: onTabRemoved_def sample_background_def new_background_def)

subsection \<open>Retry bound and fallback mode\<close>

lemma refreshPolicy_keeps:
  "isInitialized (refreshPolicy h pd s) = isInitialized s"
  "initializationPromise (refreshPolicy h pd s) = initializationPromise s"
  "initializationRetries (refreshPolicy h pd s) = initializationRetries s"
  "retryScheduled (refreshPolicy h pd s) = retryScheduled s"
  "listenersReady (refreshPolicy h pd s) = listenersReady s"
  "errorCount (refreshPolicy h pd s) = errorCount s"
  "alarms (refreshPolicy h pd s) = alarms s"
  by (simp_all add: refreshPolicy_def Let_def split: whitelist_value.splits)

lemma ping_fallback: "fallbackMode (ping s) = (\<not> isInitialized s)"
  by (simp add: ping_def)

lemma attempt_throws_fields [simp]:
  "attempt_throws outcome (s\<lparr> retryScheduled := b \<rparr>) = attempt_throws outcome s"
  "attempt_throws outcome (s\<lparr> initializationPromise := b \<rparr>) = attempt_throws outcome s"
  by (cases outcome; simp)+

lemma init_failed_fallback:
  "maxInitializationRetries \<le> initializationRetries s + 1 \<Longrightarrow>
   init_failed err now s =
     s\<lparr> lastError := Some err, initializationRetries := initializationRetries s + 1,
        initializationPromise := False, isInitialized := False, policy := Some getDefaultPolicy \<rparr>"
  by (simp add: init_failed_def Let_def enterFallbackMode_def)

lemma init_failed_retry:
  "initializationRetries s + 1 < maxInitializationRetries \<Longrightarrow>
   init_failed err now s =
     s\<lparr> lastError := Some err, initializationRetries := initializationRetries s + 1,
        initializationPromise := False, retryScheduled := True,
        alarms := alarms s @ [(''check:init-retry'', now + 1000 * (initializationRetries s + 1))] \<rparr>"
  by (simp add: init_failed_def Let_def)

text \<open>An attempt that throws ends in the \<^verbatim>\<open>catch\<close> block of \<^verbatim>\<open>_doInitialize\<close>.\<close>

lemma failing_attempt_state:
  assumes "attempt_throws outcome s" "\<not> isInitialized s" "\<not> initializationPromise s" "\<not> retryScheduled s"
  shows "\<exists>err s0. snd (initialize h outcome now s) = init_failed err now s0 \<and>
           initializationRetries s0 = initializationRetries s \<and> alarms s0 = alarms s \<and>
           isInitialized s0 = False \<and> retryScheduled s0 = False"
proof (cases outcome)
  case (Completes pd)
  with assms show ?thesis by simp
next
  case (Throws_before_policy e)
  with assms show ?thesis
    by (auto simp: initialize_def intro!: exI [of _ e] exI [of _ "s\<lparr>initializationPromise := True\<rparr>"])
next
  case (Throws_in_listener_setup pd e)
  with assms show ?thesis
    by (auto simp: initialize_def refreshPolicy_keeps
          intro!: exI [of _ e]
            exI [of _ "(refreshPolicy h pd (s\<lparr>initializationPromise := True\<rparr>))\<lparr>listenersReady := True\<rparr>"])
qed

lemma failing_attempt_retry:
  assumes "attempt_throws outcome s" "\<not> isInitialized s" "\<not> initializationPromise s"
    "\<not> retryScheduled s" "initializationRetries s + 1 < maxInitializationRetries"
  shows "initializationRetries (snd (initialize h outcome now s)) = initializationRetries s + 1 \<and>
         alarms (snd (initialize h outcome now s)) =
           alarms s @ [(''check:init-retry'', now + 1000 * (initializationRetries s + 1))] \<and>
         \<not> isInitialized (snd (initialize h outcome now s)) \<and>
         \<not> initializationPromise (snd (initialize h outcome now s)) \<and>
         retryScheduled (snd (initialize h outcome now s))"
proof -
  from failing_attempt_state [OF assms(1-4), of h now] obtain err s0 where
    eq: "snd (initialize h outcome now s) = init_failed err now s0" and
    s0: "initializationRetries s0 = initializationRetries s" "alarms s0 = alarms s"
        "isInitialized s0 = False"
    by blast
  from assms(5) s0 have "initializationRetries s0 + 1 < maxInitializationRetries" by simp
  from init_failed_retry [OF this, of err now] show ?thesis by (simp add: eq s0)
qed

lemma failing_attempt_fallback:
  assumes "attempt_throws outcome s" "\<not> isInitialized s" "\<not> initializationPromise s"
    "\<not> retryScheduled s" "maxInitializationRetries \<le> initializationRetries s + 1"
  shows "initializationRetries (snd (initialize h outcome now s)) = initializationRetries s + 1 \<and>
         alarms (snd (initialize h outcome now s)) = alarms s \<and>
         \<not> isInitialized (snd (initialize h outcome now s)) \<and>
         policy (snd (initialize h outcome now s)) = Some getDefaultPolicy \<and>
         \<not> retryScheduled (snd (initialize h outcome now s))"
proof -
  from failing_attempt_state [OF assms(1-4), of h now] obtain err s0 where
    eq: "snd (initialize h outcome now s) = init_failed err now s0" and
    s0: "initializationRetries s0 = initializationRetries s" "alarms s0 = alarms s"
        "isInitialized s0 = False" "retryScheduled s0 = False"
    by blast
  from assms(5) s0 have "maxInitializationRetries \<le> initializationRetries s0 + 1" by simp
  from init_failed_fallback [OF this, of err now] show ?thesis by (simp add: eq s0)
qed

text \<open>
  In fallback mode, with the retry counter at its bound, a call of \<^verbatim>\<open>initialize\<close>
  either succeeds, or leaves the worker in fallback mode without creating an alarm.
\<close>

lemma in_fallback_initialize:
  assumes "in_fallback s"
  shows "(isInitialized (snd (initialize h outcome now s)) \<and>
          errorCount (snd (initialize h outcome now s)) = 0) \<or>
         (in_fallback (snd (initialize h outcome now s)) \<and>
          alarms (snd (initialize h outcome now s)) = alarms s)"
proof (cases "initializationPromise s \<or> retryScheduled s")
  case True
  with assms show ?thesis by (auto simp: initialize_def in_fallback_def)
next
  case False
  show ?thesis
  proof (cases outcome)
    case (Completes pd)
    with assms False show ?thesis
      by (simp add: initialize_def in_fallback_def init_completed_def)
  next
    case (Throws_before_policy e)
    with assms False show ?thesis
      by (simp add: initialize_def in_fallback_def init_failed_fallback)
  next
    case (Throws_in_listener_setup pd e)
    with assms False show ?thesis
      by (simp add: initialize_def in_fallback_def init_failed_fallback refreshPolicy_keeps
            init_completed_def)
  qed
qed

lemma in_fallback_message_failed:
  assumes "in_fallback s"
  shows "isInitialized (message_failed h reinit now s) \<or>
         (in_fallback (message_failed h reinit now s) \<and>
          alarms (message_failed h reinit now s) = alarms s)"
proof (cases "maxErrors < errorCount s + 1")
  case True
  let ?s = "s\<lparr> errorCount := errorCount s + 1 \<rparr>
             \<lparr> errorCount := 0, isInitialized := False, initializationPromise := False \<rparr>"
  from assms have "in_fallback ?s" by (simp add: in_fallback_def)
  from in_fallback_initialize [OF this, of h reinit now] True show ?thesis
    by (auto simp: message_failed_def Let_def)
next
  case False
  with assms show ?thesis by (simp add: message_failed_def Let_def in_fallback_def)
qed

lemma initialized_message_failed:
  "isInitialized s \<Longrightarrow> errorCount s = 0 \<Longrightarrow> isInitialized (message_failed h reinit now s)"
  by (simp add: message_failed_def Let_def maxErrors_def)

lemma in_fallback_message_end:
  assumes "in_fallback s"
  shows "isInitialized (message_end h ending s) \<or>
         (in_fallback (message_end h ending s) \<and> alarms (message_end h ending s) = alarms s)"
  using assms in_fallback_message_failed [OF assms] by (cases ending) auto

lemma initialized_message_end:
  "isInitialized s \<Longrightarrow> errorCount s = 0 \<Longrightarrow> isInitialized (message_end h ending s)"
  by (cases ending) (simp_all add: initialized_message_failed)

lemma in_fallback_step:
  assumes fb: "in_fallback s" and same: "same_worker e"
    and down: "\<not> isInitialized (lifecycle_step h e s)"
  shows "in_fallback (lifecycle_step h e s) \<and> alarms (lifecycle_step h e s) = alarms s"
proof (cases e)
  case (Worker_started outcome now)
  with same show ?thesis by simp
next
  case (Script_loaded outcome now)
  with down in_fallback_initialize [OF fb, of h outcome now] show ?thesis by auto
next
  case (Alarm_init_retry outcome now)
  from fb have "in_fallback (s\<lparr>retryScheduled := False\<rparr>)" by (simp add: in_fallback_def)
  from in_fallback_initialize [OF this, of h outcome now] down Alarm_init_retry
  show ?thesis by auto
next
  case (Ping_message ending)
  with down in_fallback_message_end [OF fb, of h ending] show ?thesis by auto
next
  case (Other_message outcome now ending)
  let ?s1 = "snd (initialize h outcome now s)"
  from fb have step: "lifecycle_step h e s = message_end h ending ?s1"
    using Other_message by (simp add: in_fallback_def)
  from in_fallback_initialize [OF fb, of h outcome now] show ?thesis
  proof
    assume "isInitialized ?s1 \<and> errorCount ?s1 = 0"
    then have "isInitialized (message_end h ending ?s1)" by (simp add: initialized_message_end)
    with down step show ?thesis by simp
  next
    assume a: "in_fallback ?s1 \<and> alarms ?s1 = alarms s"
    then have "in_fallback ?s1" by simp
    from in_fallback_message_end [OF this, of h ending] down step a show ?thesis by auto
  qed
qed

lemma in_fallback_run:
  "in_fallback s \<Longrightarrow> list_all same_worker es \<Longrightarrow> stays_uninitialized h es s \<Longrightarrow>
   in_fallback (lifecycle_run h es s) \<and> alarms (lifecycle_run h es s) = alarms s"
proof (induction es arbitrary: s)
  case Nil
  then show ?case by simp
next
  case (Cons e es)
  from Cons.prems have st: "in_fallback (lifecycle_step h e s)" "alarms (lifecycle_step h e s) = alarms s"
    using in_fallback_step [of s e h] by simp_all
  from Cons.IH [OF st(1)] Cons.prems st(2) show ?case by simp
qed

lemma fresh_worker_fields:
  "\<not> isInitialized (fresh_worker s)" "\<not> initializationPromise (fresh_worker s)"
  "\<not> retryScheduled (fresh_worker s)" "initializationRetries (fresh_worker s) = 0"
  "alarms (fresh_worker s) = alarms s" "\<not> listenersReady (fresh_worker s)"
  by (simp_all add: fresh_worker_def new_background_def)

lemma offline_attempt:
  "\<not> isInitialized s \<Longrightarrow> \<not> initializationPromise s \<Longrightarrow> \<not> retryScheduled s \<Longrightarrow>
   snd (initialize h offline now s) =
     init_failed (NetworkFailure ''offline'') now (s\<lparr> initializationPromise := True \<rparr>)"
  by (simp add: initialize_def offline_def)

text \<open>The state after three failed attempts: a new worker and its two retry alarms.\<close>

lemma three_offline_attempts:
  "lifecycle_run sample_host
     [Worker_started offline 0, Alarm_init_retry offline 1000, Alarm_init_retry offline 3000]
     new_background =
   new_background
     \<lparr> initializationRetries := 3, policy := Some getDefaultPolicy,
       lastError := Some (NetworkFailure ''offline''),
       alarms := [(''check:init-retry'', 1000), (''check:init-retry'', 3000)] \<rparr>"
  by (simp add: fresh_worker_def new_background_def offline_attempt init_failed_def
        maxInitializationRetries_def enterFallbackMode_def)

text \<open>
  C7. Three failed attempts put the worker in fallback mode. Then:

  \<^item> a message arrives and the attempt it starts succeeds: the next ping is answered
    with \<^verbatim>\<open>fallbackMode: false\<close>;
  \<^item> the idle worker is stopped and a new one is started, whose attempt fails as well:
    this fourth consecutive failure schedules another retry alarm;
  \<^item> after the late success, the handling of eleven messages throws, the worker marks
    itself uninitialized and the attempt it starts fails: a retry alarm is scheduled.
\<close>

theorem fallback_not_final_counterexample:
  "\<not> fallbackMode (ping (lifecycle_run sample_host
       [Other_message (Completes None) 9000 Handled]
       (lifecycle_run sample_host
          [Worker_started offline 0, Alarm_init_retry offline 1000, Alarm_init_retry offline 3000]
          new_background))) \<and>
   alarms (lifecycle_run sample_host
       [Worker_started offline 60000]
       (lifecycle_run sample_host
          [Worker_started offline 0, Alarm_init_retry offline 1000, Alarm_init_retry offline 3000]
          new_background)) =
     [(''check:init-retry'', 1000), (''check:init-retry'', 3000), (''check:init-retry'', 61000)] \<and>
   alarms (lifecycle_run sample_host
       (Other_message (Completes None) 9000 Handled # replicate 11 failing_message)
       (lifecycle_run sample_host
          [Worker_started offline 0, Alarm_init_retry offline 1000, Alarm_init_retry offline 3000]
          new_background)) =
     [(''check:init-retry'', 1000), (''check:init-retry'', 3000), (''check:init-retry'', 11000)]"
proof -
  let ?s3 = "lifecycle_run sample_host
          [Worker_started offline 0, Alarm_init_retry offline 1000, Alarm_init_retry offline 3000]
          new_background"
  let ?up = "new_background
     \<lparr> initializationRetries := 0, policy := Some getDefaultPolicy,
       lastError := Some (NetworkFailure ''offline''),
       alarms := [(''check:init-retry'', 1000), (''check:init-retry'', 3000)],
       initializationPromise := True, extraWhitelist := [], listenersReady := True,
       isInitialized := True, errorCount := 0 \<rparr>"
  have up: "lifecycle_run sample_host [Other_message (Completes None) 9000 Handled] ?s3 = ?up"
    by (simp add: three_offline_attempts del: lifecycle_run.simps)
       (simp add: new_background_def initialize_def init_completed_def refreshPolicy_def
          getDefaultPolicy_def)
  have a: "\<not> fallbackMode (ping (lifecycle_run sample_host
       [Other_message (Completes None) 9000 Handled] ?s3))"
    unfolding up by (simp add: ping_def new_background_def)
  have b: "alarms (lifecycle_run sample_host [Worker_started offline 60000] ?s3) =
     [(''check:init-retry'', 1000), (''check:init-retry'', 3000), (''check:init-retry'', 61000)]"
    by (simp add: three_offline_attempts del: lifecycle_run.simps)
       (simp add: fresh_worker_def new_background_def offline_attempt init_failed_def
          maxInitializationRetries_def)
  have count: "\<And>s. isInitialized s \<Longrightarrow> errorCount s < maxErrors \<Longrightarrow>
      lifecycle_step sample_host failing_message s = s\<lparr> errorCount := errorCount s + 1 \<rparr>"
    by (simp add: failing_message_def message_failed_def Let_def)
  have ten: "lifecycle_run sample_host (replicate 10 failing_message) ?up = ?up\<lparr> errorCount := 10 \<rparr>"
    by (simp add: numeral_eq_Suc count new_background_def maxErrors_def)
  have last: "lifecycle_step sample_host failing_message (?up\<lparr> errorCount := 10 \<rparr>) =
      ?up\<lparr> errorCount := 0, isInitialized := False, initializationPromise := False,
           lastError := Some (NetworkFailure ''offline''), initializationRetries := 1,
           retryScheduled := True,
           alarms := [(''check:init-retry'', 1000), (''check:init-retry'', 3000),
                      (''check:init-retry'', 11000)] \<rparr>"
    by (simp add: failing_message_def message_failed_def Let_def maxErrors_def new_background_def
          offline_attempt init_failed_def maxInitializationRetries_def)
  have split: "replicate 11 failing_message = replicate 10 failing_message @ [failing_message]"
    by (simp add: numeral_eq_Suc replicate_append_same)
  have run_append: "\<And>xs ys s. lifecycle_run sample_host (xs @ ys) s =
      lifecycle_run sample_host ys (lifecycle_run sample_host xs s)"
  proof -
    fix xs ys s
    show "lifecycle_run sample_host (xs @ ys) s =
      lifecycle_run sample_host ys (lifecycle_run sample_host xs s)"
      by (induction xs arbitrary: s) simp_all
  qed
  have "lifecycle_run sample_host
       (Other_message (Completes None) 9000 Handled # replicate 11 failing_message) ?s3 =
     lifecycle_run sample_host (replicate 11 failing_message) ?up"
    using up by simp
  also have "\<dots> = lifecycle_step sample_host failing_message (?up\<lparr> errorCount := 10 \<rparr>)"
    unfolding split run_append ten by simp
  finally have c: "alarms (lifecycle_run sample_host
       (Other_message (Completes None) 9000 Handled # replicate 11 failing_message) ?s3) =
     [(''check:init-retry'', 1000), (''check:init-retry'', 3000), (''check:init-retry'', 11000)]"
    unfolding last by simp
  show ?thesis using a b c by blast
qed

text \<open>
  C7, amended. Three consecutive failed attempts, the first when a worker is started and
  the others on the retry alarms, leave the worker uninitialized with the default policy.
  The first retry is scheduled 1000 ms after the first failure and the second 2000 ms after
  the second; the third failure schedules nothing. From then on, for as long as the same
  worker runs and no attempt succeeds, no further alarm is created and every ping is
  answered with \<^verbatim>\<open>fallbackMode: true\<close>. In every state the \<^verbatim>\<open>fallbackMode\<close> of the
  ping response is the negation of the initialized flag.
\<close>

theorem three_failures_enter_fallback:
  assumes f1: "attempt_throws o1 (fresh_worker s0)"
    and f2: "attempt_throws o2 (lifecycle_run h [Worker_started o1 t1] s0)"
    and f3: "attempt_throws o3
               (lifecycle_run h [Worker_started o1 t1, Alarm_init_retry o2 t2] s0)"
  shows
    "(let s3 = lifecycle_run h
                 [Worker_started o1 t1, Alarm_init_retry o2 t2, Alarm_init_retry o3 t3] s0
      in \<not> isInitialized s3 \<and> policy s3 = Some getDefaultPolicy \<and>
         alarms s3 = alarms s0 @ [(''check:init-retry'', t1 + 1000 * 1),
                                  (''check:init-retry'', t2 + 1000 * 2)] \<and>
         fallbackMode (ping s3) \<and>
         (list_all same_worker es \<and> stays_uninitialized h es s3 \<longrightarrow>
            alarms (lifecycle_run h es s3) = alarms s3 \<and>
            fallbackMode (ping (lifecycle_run h es s3)))) \<and>
     fallbackMode (ping s) = (\<not> isInitialized s)"
proof -
  let ?s1 = "snd (initialize h o1 t1 (fresh_worker s0))"
  let ?s2 = "snd (initialize h o2 t2 (?s1\<lparr>retryScheduled := False\<rparr>))"
  let ?s3 = "snd (initialize h o3 t3 (?s2\<lparr>retryScheduled := False\<rparr>))"
  have run: "lifecycle_run h [Worker_started o1 t1, Alarm_init_retry o2 t2, Alarm_init_retry o3 t3]
               s0 = ?s3"
    by simp
  from f2 have f2': "attempt_throws o2 (?s1\<lparr>retryScheduled := False\<rparr>)" by simp
  from f3 have f3': "attempt_throws o3 (?s2\<lparr>retryScheduled := False\<rparr>)" by simp
  have s1: "initializationRetries ?s1 = 1"
      "alarms ?s1 = alarms s0 @ [(''check:init-retry'', t1 + 1000 * 1)]"
      "\<not> isInitialized ?s1" "\<not> initializationPromise ?s1"
    using failing_attempt_retry [OF f1, of h t1]
    by (simp_all add: fresh_worker_fields maxInitializationRetries_def)
  have s2: "initializationRetries ?s2 = 2"
      "alarms ?s2 = alarms s0 @ [(''check:init-retry'', t1 + 1000 * 1),
                                 (''check:init-retry'', t2 + 1000 * 2)]"
      "\<not> isInitialized ?s2" "\<not> initializationPromise ?s2"
    using failing_attempt_retry [OF f2', of h t2] s1
    by (simp_all add: maxInitializationRetries_def)
  have s3: "initializationRetries ?s3 = 3"
      "alarms ?s3 = alarms s0 @ [(''check:init-retry'', t1 + 1000 * 1),
                                 (''check:init-retry'', t2 + 1000 * 2)]"
      "\<not> isInitialized ?s3" "policy ?s3 = Some getDefaultPolicy"
    using failing_attempt_fallback [OF f3', of h t3] s2
    by (simp_all add: maxInitializationRetries_def)
  have fb: "in_fallback ?s3"
    using s3 by (simp add: in_fallback_def maxInitializationRetries_def)
  have later: "list_all same_worker es \<and> stays_uninitialized h es ?s3 \<longrightarrow>
            alarms (lifecycle_run h es ?s3) = alarms ?s3 \<and>
            fallbackMode (ping (lifecycle_run h es ?s3))"
    using in_fallback_run [OF fb, of es h] by (simp add: ping_fallback in_fallback_def)
  show ?thesis
    unfolding run Let_def using s3 later by (simp add: ping_fallback)
qed

theorem three_failures_enter_fallback_witness:
  "attempt_throws offline (fresh_worker new_background) \<and>
   attempt_throws offline (lifecycle_run sample_host [Worker_started offline 0] new_background) \<and>
   attempt_throws offline
     (lifecycle_run sample_host [Worker_started offline 0, Alarm_init_retry offline 1000]
        new_background) \<and>
   list_all same_worker [Ping_message Handled, failing_message, Ping_message Handled] \<and>
   stays_uninitialized sample_host [Ping_message Handled, failing_message, Ping_message Handled]
     (lifecycle_run sample_host
        [Worker_started offline 0, Alarm_init_retry offline 1000, Alarm_init_retry offline 3000]
        new_background) \<and>
   (let s3 = lifecycle_run sample_host
               [Worker_started offline 0, Alarm_init_retry offline 1000,
                Alarm_init_retry offline 3000]
               new_background
    in \<not> isInitialized s3 \<and> policy s3 = Some getDefaultPolicy \<and>
       alarms s3 = [(''check:init-retry'', 1000), (''check:init-retry'', 3000)] \<and>
       alarms (lifecycle_run sample_host
                 [Ping_message Handled, failing_message, Ping_message Handled] s3) = alarms s3 \<and>
       fallbackMode (ping (lifecycle_run sample_host
                 [Ping_message Handled, failing_message, Ping_message Handled] s3)))"
proof -
  have f: "\<And>s. attempt_throws offline s" by (simp add: offline_def)
  have es: "list_all same_worker [Ping_message Handled, failing_message, Ping_message Handled]"
    by (simp add: failing_message_def)
  have down: "stays_uninitialized sample_host
     [Ping_message Handled, failing_message, Ping_message Handled]
     (lifecycle_run sample_host
        [Worker_started offline 0, Alarm_init_retry offline 1000, Alarm_init_retry offline 3000]
        new_background)"
    unfolding three_offline_attempts
    by (simp add: failing_message_def new_background_def offline_attempt init_failed_def
          maxInitializationRetries_def enterFallbackMode_def message_failed_def Let_def
          maxErrors_def)
  have a0: "alarms new_background = []" by (simp add: new_background_def)
  show ?thesis
    using f es down
      three_failures_enter_fallback [where h = sample_host and ?s0.0 = new_background
        and ?t1.0 = 0 and ?t2.0 = 1000 and ?t3.0 = 3000 and s = new_background
        and es = "[Ping_message Handled, failing_message, Ping_message Handled]", OF f f f]
    by (simp add: Let_def a0 del: lifecycle_run.simps stays_uninitialized.simps)
qed

subsection \<open>Refresh of the rogue-application registry\<close>

lemma refresh_rejected_result:
  "refresh_rejected fetched \<Longrightarrow> \<exists>err. updateRogueApps fetched now stored m = (Some err, m)"
  by (cases fetched rule: refresh_rejected.cases) (simp_all add: updateRogueApps_def)

lemma refresh_accepted_payload:
  "\<not> refresh_rejected fetched \<Longrightarrow>
   \<exists>status apps. fetched = Fetch_response status (Body_json (Json_array apps)) \<and> response_ok status"
  by (cases fetched rule: refresh_rejected.cases) simp_all

text \<open>
  C9. When the fetch rejects (network error or timeout), the status is not 2xx, the body is
  not JSON or the JSON value is not an array, \<^verbatim>\<open>updateRogueApps\<close> leaves the manager as
  it was, table and \<^verbatim>\<open>lastUpdate\<close> included, and hands the error to its caller
  (\<^verbatim>\<open>forceUpdate\<close> reports it with \<^verbatim>\<open>success: false\<close>). The table or the timestamp
  change only after a 2xx response whose body is a JSON array.
\<close>

theorem failed_refresh_leaves_registry_unchanged:
  "(refresh_rejected fetched \<longrightarrow>
      (\<exists>err. updateRogueApps fetched now stored m = (Some err, m) \<and>
             forceUpdate fetched now stored m =
               (\<lparr> fu_success = False, fu_count = None, fu_error = Some err \<rparr>, m))) \<and>
   (rogueApps (snd (updateRogueApps fetched now stored m)) \<noteq> rogueApps m \<or>
    lastUpdate (snd (updateRogueApps fetched now stored m)) \<noteq> lastUpdate m \<longrightarrow>
      (\<exists>status apps. fetched = Fetch_response status (Body_json (Json_array apps)) \<and>
                      response_ok status))"
proof -
  have a: "refresh_rejected fetched \<longrightarrow>
      (\<exists>err. updateRogueApps fetched now stored m = (Some err, m) \<and>
             forceUpdate fetched now stored m =
               (\<lparr> fu_success = False, fu_count = None, fu_error = Some err \<rparr>, m))"
  proof
    assume "refresh_rejected fetched"
    from refresh_rejected_result [OF this, of now stored m] obtain err where
      "updateRogueApps fetched now stored m = (Some err, m)" by blast
    then show "\<exists>err. updateRogueApps fetched now stored m = (Some err, m) \<and>
             forceUpdate fetched now stored m =
               (\<lparr> fu_success = False, fu_count = None, fu_error = Some err \<rparr>, m)"
      by (simp add: forceUpdate_def)
  qed
  have b: "rogueApps (snd (updateRogueApps fetched now stored m)) \<noteq> rogueApps m \<or>
    lastUpdate (snd (updateRogueApps fetched now stored m)) \<noteq> lastUpdate m \<longrightarrow>
      (\<exists>status apps. fetched = Fetch_response status (Body_json (Json_array apps)) \<and>
                      response_ok status)"
  proof (cases "refresh_rejected fetched")
    case True
    from refresh_rejected_result [OF this, of now stored m] show ?thesis by auto
  next
    case False
    from refresh_accepted_payload [OF this] show ?thesis by blast
  qed
  show ?thesis using a b by blast
qed

theorem failed_refresh_leaves_registry_unchanged_witness:
  "refresh_rejected (Fetch_response 503 (Body_json (Json_array []))) \<and>
   updateRogueApps (Fetch_response 503 (Body_json (Json_array []))) 900 True sample_manager =
     (Some (HttpError 503), sample_manager) \<and>
   forceUpdate (Fetch_response 503 (Body_json (Json_array []))) 900 True sample_manager =
     (\<lparr> fu_success = False, fu_count = None, fu_error = Some (HttpError 503) \<rparr>, sample_manager) \<and>
   lastUpdate (snd (updateRogueApps (Fetch_response 200 (Body_json (Json_array []))) 900 True sample_manager))
     \<noteq> lastUpdate sample_manager \<and>
   response_ok 200"
proof -
  have r: "refresh_rejected (Fetch_response 503 (Body_json (Json_array [])))"
    by (simp add: response_ok_def)
  have u: "updateRogueApps (Fetch_response 503 (Body_json (Json_array []))) 900 True sample_manager =
     (Some (HttpError 503), sample_manager)"
    by (simp add: updateRogueApps_def response_ok_def)
  have l: "lastUpdate (snd (updateRogueApps (Fetch_response 200 (Body_json (Json_array []))) 900 True sample_manager))
     \<noteq> lastUpdate sample_manager"
    by (simp add: updateRogueApps_def response_ok_def sample_manager_def)
  show ?thesis
    using r u l
      failed_refresh_leaves_registry_unchanged [of "Fetch_response 503 (Body_json (Json_array []))"
        900 True sample_manager]
      failed_refresh_leaves_registry_unchanged [of "Fetch_response 200 (Body_json (Json_array []))"
        900 True sample_manager]
    by auto
qed

text \<open>
  An array that passes the check but holds a \<^verbatim>\<open>null\<close> element fails later, while the
  table is being filled: the table has been cleared by then.
\<close>

lemma null_entry_clears_table:
  "updateRogueApps (Fetch_response 200 (Body_json (Json_array [Item_null]))) 900 True sample_manager =
     (Some (TypeError ''appId''), sample_manager\<lparr> rogueApps := Map.empty \<rparr>)"
  by (simp add: updateRogueApps_def response_ok_def)

subsection \<open>URL verdicts\<close>

text \<open>
  As long as the policy does not carry a \<^verbatim>\<open>trustedOrigins\<close> with a truthy \<^verbatim>\<open>has\<close>,
  \<^verbatim>\<open>verdictForUrl\<close> returns one of its three verdicts for every string.
\<close>

lemma verdictForUrl_range:
  "callable_or_absent pol \<Longrightarrow>
   \<exists>v. verdictForUrl h pol wl raw = Inr v \<and> v \<in> {''trusted'', ''trusted-extra'', ''not-evaluated''}"
  by (auto simp: verdictForUrl_def Let_def callable_or_absent_def
        split: option.splits origins_value.splits)

text \<open>
  The whitelist never holds the empty origin: \<^verbatim>\<open>refreshPolicy\<close>, its only writer,
  filters it out.
\<close>

lemma whitelist_refreshPolicy: "[] \<notin> set (extraWhitelist (refreshPolicy h pd s))"
  by (simp add: refreshPolicy_def Let_def split: whitelist_value.splits)

lemma whitelist_init_failed: "extraWhitelist (init_failed err now s) = extraWhitelist s"
  by (simp add: init_failed_def Let_def enterFallbackMode_def)

lemma whitelist_initialize:
  "[] \<notin> set (extraWhitelist s) \<Longrightarrow> [] \<notin> set (extraWhitelist (snd (initialize h outcome now s)))"
  by (cases outcome)
     (simp_all add: initialize_def init_completed_def whitelist_init_failed whitelist_refreshPolicy)

lemma whitelist_message_end:
  "[] \<notin> set (extraWhitelist s) \<Longrightarrow> [] \<notin> set (extraWhitelist (message_end h ending s))"
  by (cases ending) (simp_all add: message_failed_def Let_def whitelist_initialize)

lemma whitelist_step:
  "[] \<notin> set (extraWhitelist s) \<Longrightarrow> [] \<notin> set (extraWhitelist (lifecycle_step h e s))"
  by (cases e)
     (simp_all add: whitelist_initialize whitelist_message_end fresh_worker_def new_background_def)

lemma whitelist_run:
  "[] \<notin> set (extraWhitelist s) \<Longrightarrow> [] \<notin> set (extraWhitelist (lifecycle_run h es s))"
  by (induction es arbitrary: s) (simp_all add: whitelist_step)

text \<open>
  In every state the worker reaches from its construction, a string that the URL parser
  rejects gets \<^verbatim>\<open>not-evaluated\<close>, as long as the policy does not carry a
  \<^verbatim>\<open>trustedOrigins\<close> with a truthy \<^verbatim>\<open>has\<close>.
\<close>

lemma unparseable_not_evaluated:
  assumes "URL_origin h raw = None"
    and "callable_or_absent (policy (lifecycle_run h es new_background))"
  shows "verdictForUrl h (policy (lifecycle_run h es new_background))
           (extraWhitelist (lifecycle_run h es new_background)) raw = Inr ''not-evaluated''"
proof -
  have "[] \<notin> set (extraWhitelist (lifecycle_run h es new_background))"
    by (rule whitelist_run) (simp add: new_background_def)
  with assms show ?thesis
    by (auto simp: verdictForUrl_def Let_def urlOrigin_def callable_or_absent_def
          default_trusted_origins_def split: option.splits origins_value.splits)
qed

text \<open>
  With a whitelist of two entries, one of them not a URL, the worker keeps the origin of
  the other; a URL on that origin is \<^verbatim>\<open>trusted-extra\<close>, a Microsoft login URL is
  \<^verbatim>\<open>trusted\<close>, and the string that is not a URL is \<^verbatim>\<open>not-evaluated\<close>.
\<close>

lemma partner_policy_verdicts:
  "extraWhitelist (lifecycle_run sample_host
      [Worker_started (Completes (Some partner_policy)) 0] new_background) =
     [''https://evil.example''] \<and>
   verdictForUrl sample_host (Some partner_policy) [''https://evil.example'']
     ''https://evil.example/login'' = Inr ''trusted-extra'' \<and>
   verdictForUrl sample_host (Some partner_policy) [''https://evil.example'']
     ''https://login.microsoftonline.com/common'' = Inr ''trusted'' \<and>
   verdictForUrl sample_host (Some partner_policy) [''https://evil.example'']
     ''not a url'' = Inr ''not-evaluated''"
  by (simp add: fresh_worker_def new_background_def initialize_def init_completed_def
        refreshPolicy_def partner_policy_def getDefaultPolicy_def verdictForUrl_def
        urlOrigin_def sample_host_def default_trusted_origins_def toLowerCase_def
        toLowerCase_char_def)

text \<open>
  C10. The policy manager hands over the stored policy
  \<^verbatim>\<open>{"trustedOrigins": {"has": true}}\<close> and the initialization completes. From then on
  \<^verbatim>\<open>verdictForUrl\<close> throws a TypeError, for a URL and for a string that is not one.
\<close>

theorem verdictForUrl_throws_on_uncallable_has:
  "isInitialized (lifecycle_run sample_host
      [Worker_started (Completes (Some uncallable_policy)) 0] new_background) \<and>
   verdictForUrl sample_host
     (policy (lifecycle_run sample_host
        [Worker_started (Completes (Some uncallable_policy)) 0] new_background))
     (extraWhitelist (lifecycle_run sample_host
        [Worker_started (Completes (Some uncallable_policy)) 0] new_background))
     ''https://evil.example/login'' = Inl (TypeError ''trustedOrigins.has is not a function'') \<and>
   verdictForUrl sample_host
     (policy (lifecycle_run sample_host
        [Worker_started (Completes (Some uncallable_policy)) 0] new_background))
     (extraWhitelist (lifecycle_run sample_host
        [Worker_started (Completes (Some uncallable_policy)) 0] new_background))
     ''not a url'' = Inl (TypeError ''trustedOrigins.has is not a function'')"
proof -
  have s: "lifecycle_run sample_host
      [Worker_started (Completes (Some uncallable_policy)) 0] new_background =
    new_background\<lparr> initializationPromise := True, policy := Some uncallable_policy,
      extraWhitelist := [], listenersReady := True, isInitialized := True,
      initializationRetries := 0, errorCount := 0 \<rparr>"
    by (simp add: fresh_worker_def new_background_def initialize_def init_completed_def
          refreshPolicy_def uncallable_policy_def getDefaultPolicy_def)
  show ?thesis
    unfolding s by (simp add: verdictForUrl_def uncallable_policy_def)
qed

end
